theory Spec2Isabelle
  imports Main "HOL-Library.Word"
begin

section \<open>Glint types and \<open>Type::Equal\<close> (lib/glint/ast.cc)\<close>

text \<open>
  A glint type is an immutable object; its element, parameter and member types are
  reached through pointers. Every node of the model carries, as its first field, the
  address of the object it stands for, so that the pointer comparison \<open>a == b\<close> of the
  source is the comparison of the two addresses. An object has one content: two nodes
  with the same address are the same node.
\<close>

type_synonym type_ptr = nat

datatype BuiltinKind = K_Unknown | K_Bool | K_Byte | K_Int | K_UInt | K_Void | K_OverloadSet

datatype FFIKind =
    CChar | CSChar | CUChar | CShort | CUShort | CInt | CUInt
  | CLong | CULong | CLongLong | CULongLong

datatype Kind =
    Kind_Builtin | Kind_FFIType | Kind_Named | Kind_Pointer | Kind_Reference
  | Kind_DynamicArray | Kind_Array | Kind_Function | Kind_Enum | Kind_Struct | Kind_Integer

text \<open>
  \<open>ArrayType\<close> keeps whether the type has been checked (\<open>ok()\<close>) and the value of its
  size expression; \<open>StructType\<close> keeps the pointer to its declaration (\<open>None\<close> for an
  anonymous struct) and the types of its members; \<open>IntegerType\<close> its bit width and
  signedness.
\<close>

datatype Type =
    BuiltinType type_ptr BuiltinKind
  | FFIType type_ptr FFIKind
  | NamedType type_ptr string
  | PointerType type_ptr Type
  | ReferenceType type_ptr Type
  | DynamicArrayType type_ptr Type
  | ArrayType type_ptr Type bool "64 word"
  | FuncType type_ptr "Type list" Type
  | EnumType type_ptr Type
  | StructType type_ptr "nat option" "Type list"
  | IntegerType type_ptr "64 word" bool

fun addr :: "Type \<Rightarrow> type_ptr" where
  "addr (BuiltinType p _) = p"
| "addr (FFIType p _) = p"
| "addr (NamedType p _) = p"
| "addr (PointerType p _) = p"
| "addr (ReferenceType p _) = p"
| "addr (DynamicArrayType p _) = p"
| "addr (ArrayType p _ _ _) = p"
| "addr (FuncType p _ _) = p"
| "addr (EnumType p _) = p"
| "addr (StructType p _ _) = p"
| "addr (IntegerType p _ _) = p"

fun Type_kind :: "Type \<Rightarrow> Kind" where
  "Type_kind (BuiltinType _ _) = Kind_Builtin"
| "Type_kind (FFIType _ _) = Kind_FFIType"
| "Type_kind (NamedType _ _) = Kind_Named"
| "Type_kind (PointerType _ _) = Kind_Pointer"
| "Type_kind (ReferenceType _ _) = Kind_Reference"
| "Type_kind (DynamicArrayType _ _) = Kind_DynamicArray"
| "Type_kind (ArrayType _ _ _ _) = Kind_Array"
| "Type_kind (FuncType _ _ _) = Kind_Function"
| "Type_kind (EnumType _ _) = Kind_Enum"
| "Type_kind (StructType _ _ _) = Kind_Struct"
| "Type_kind (IntegerType _ _ _) = Kind_Integer"

text \<open>
  \<open>ArrayType::dimension\<close>: \<open>LCC_ASSERT(ok(), ...)\<close>, then the value of the size
  expression. The failed assertion aborts the compiler: \<open>None\<close>.
\<close>

fun dimension :: "Type \<Rightarrow> 64 word option" where
  "dimension (ArrayType _ _ ok n) = (if ok then Some n else None)"
| "dimension _ = None"

text \<open>
  \<open>Type::Equal\<close>. The result is \<open>None\<close> when an assertion aborts the comparison. The two
  loops over parameters and members are \<open>Equal_params\<close> and \<open>Equal_members\<close>: they run
  over the positions \<open>i < size\<close> of the first list, after the sizes have been compared,
  and return at the first pair that is not equal.
\<close>

fun Equal :: "Type \<Rightarrow> Type \<Rightarrow> bool option"
  and Equal_params :: "Type list \<Rightarrow> Type list \<Rightarrow> bool option"
  and Equal_members :: "Type list \<Rightarrow> Type list \<Rightarrow> bool option"
where
  "Equal a b =
    (if addr a = addr b then Some True
     else if Type_kind a \<noteq> Type_kind b then Some False
     else (case (a, b) of
         (BuiltinType _ ba, BuiltinType _ bb) \<Rightarrow> Some (ba = bb)
       | (FFIType _ fa, FFIType _ fb) \<Rightarrow> Some (fa = fb)
       | (NamedType _ _, NamedType _ _) \<Rightarrow> Some (addr a = addr b)
       | (EnumType _ _, EnumType _ _) \<Rightarrow> Some (addr a = addr b)
       | (PointerType _ ea, PointerType _ eb) \<Rightarrow> Equal ea eb
       | (ReferenceType _ ea, ReferenceType _ eb) \<Rightarrow> Equal ea eb
       | (ArrayType _ ea _ _, ArrayType _ eb _ _) \<Rightarrow>
           (case dimension a of None \<Rightarrow> None
            | Some da \<Rightarrow>
              (case dimension b of None \<Rightarrow> None
               | Some db \<Rightarrow> if da = db then Equal ea eb else Some False))
       | (DynamicArrayType _ ea, DynamicArrayType _ eb) \<Rightarrow> Equal ea eb
       | (FuncType _ pa ra, FuncType _ pb rb) \<Rightarrow>
           (if length pa \<noteq> length pb then Some False
            else (case Equal_params pa pb of
                    None \<Rightarrow> None
                  | Some False \<Rightarrow> Some False
                  | Some True \<Rightarrow> Equal ra rb))
       | (StructType _ da ma, StructType _ db mb) \<Rightarrow>
           (if da \<noteq> None \<or> db \<noteq> None then Some False
            else if length ma \<noteq> length mb then Some False
            else Equal_members ma mb)
       | (IntegerType _ wa sa, IntegerType _ wb sb) \<Rightarrow> Some (wa = wb \<and> sa = sb)
       | _ \<Rightarrow> None))"
| "Equal_params [] _ = Some True"
| "Equal_params (x # xs) [] = None"
| "Equal_params (x # xs) (y # ys) =
    (case Equal x y of
       None \<Rightarrow> None
     | Some False \<Rightarrow> Some False
     | Some True \<Rightarrow> Equal_params xs ys)"
| "Equal_members [] _ = Some True"
| "Equal_members (x # xs) [] = None"
| "Equal_members (x # xs) (y # ys) =
    (case Equal x y of
       None \<Rightarrow> None
     | Some False \<Rightarrow> Some False
     | Some True \<Rightarrow> Equal_members xs ys)"

section \<open>The intermediate representation used by the inliner\<close>

text \<open>
  Instructions, blocks and functions are heap objects that point at each other, and the
  inliner tells them apart by address: its history and its not-inlinable set hold
  instruction pointers. The model keeps an explicit store from addresses to objects.
  A null pointer is \<open>None\<close>.

  The intrusive lists of the source are kept as the list of their elements in the order
  of the \<open>next\<close> pointers, starting at \<open>first\<close>: \<open>instructions\<close> of a block and \<open>blocks\<close>
  of a function. The inliner reads and writes the \<open>last\<close> pointers of these lists by
  themselves, so they are separate fields (\<open>instructions_last\<close>, \<open>blocks_last\<close>).
\<close>

type_synonym inst_ptr = nat
type_synonym block_ptr = nat
type_synonym func_ptr = nat

datatype error = AssertionFailed | Unreachable | NullDereference | OutOfBounds

text \<open>The instruction kinds that the inliner's switch lists (\<open>IR_COUNT == 39\<close>).\<close>

datatype IRKind =
    IR_IMMEDIATE | IR_LIT_INTEGER | IR_LIT_STRING | IR_CALL | IR_INTRINSIC
  | IR_STATIC_REF | IR_FUNC_REF | IR_RETURN | IR_BRANCH | IR_BRANCH_CONDITIONAL
  | IR_PHI | IR_COPY | IR_LOAD | IR_STORE | IR_REGISTER | IR_ALLOCA | IR_PARAMETER
  | IR_UNREACHABLE | IR_ZERO_EXTEND | IR_SIGN_EXTEND | IR_TRUNCATE | IR_BITCAST | IR_NOT
  | IR_ADD | IR_SUB | IR_MUL | IR_DIV | IR_MOD | IR_SHL | IR_SAR | IR_SHR | IR_AND | IR_OR
  | IR_LT | IR_LE | IR_GT | IR_GE | IR_EQ | IR_NE

record IRPhiArgument =
  phi_value :: "inst_ptr option"
  phi_block :: "block_ptr option"

text \<open>
  \<open>IRInstruction\<close>. The members of the C union are separate fields; the fields of the
  nested structs \<open>call\<close>, \<open>store\<close> and \<open>cond_br\<close> carry the struct's name as a prefix.
\<close>

record IRInstruction =
  kind :: IRKind
  type :: nat
  backend_flags :: nat
  inst_id :: nat
  parent_block :: "block_ptr option"
  users :: "inst_ptr list"
  imm :: int
  static_ref :: "nat option"
  function_ref :: "func_ptr option"
  alloca :: nat
  call_intrinsic :: nat
  call_is_indirect :: bool
  call_tail_call :: bool
  call_callee_instruction :: "inst_ptr option"
  call_callee_function :: "func_ptr option"
  call_arguments :: "inst_ptr list"
  operand :: "inst_ptr option"
  lhs :: "inst_ptr option"
  rhs :: "inst_ptr option"
  store_value :: "inst_ptr option"
  store_addr :: "inst_ptr option"
  destination_block :: "block_ptr option"
  cond_br_condition :: "inst_ptr option"
  cond_br_then :: "block_ptr option"
  cond_br_else :: "block_ptr option"
  phi_args :: "IRPhiArgument list"

record IRBlock =
  instructions :: "inst_ptr list"
  instructions_last :: "inst_ptr option"
  block_function :: "func_ptr option"
  block_id :: nat

record IRFunction =
  name :: string
  blocks :: "block_ptr list"
  blocks_last :: "block_ptr option"
  parameters :: "inst_ptr list"
  is_extern :: bool
  attr_forceinline :: bool

text \<open>
  The memory the pass works on: the three stores, the next addresses that \<open>calloc\<close> and
  \<open>ir_block_create\<close> hand out, the vector \<open>ctx->functions\<close>, and the diagnostics issued so
  far. \<open>free\<close> does nothing in the model: an address is never handed out twice.
\<close>

record ir_state =
  inst_at :: "inst_ptr \<Rightarrow> IRInstruction"
  block_at :: "block_ptr \<Rightarrow> IRBlock"
  func_at :: "func_ptr \<Rightarrow> IRFunction"
  next_inst :: nat
  next_block :: nat
  ctx_functions :: "func_ptr list"
  diagnostics :: "string list"

text \<open>\<open>calloc(1, sizeof(IRInstruction))\<close> and \<open>calloc(1, sizeof(IRBlock))\<close>: all zero.\<close>

definition calloc_IRInstruction :: IRInstruction where
  "calloc_IRInstruction =
    \<lparr>kind = IR_IMMEDIATE, type = 0, backend_flags = 0, inst_id = 0, parent_block = None,
     users = [], imm = 0, static_ref = None, function_ref = None, alloca = 0,
     call_intrinsic = 0, call_is_indirect = False, call_tail_call = False,
     call_callee_instruction = None, call_callee_function = None, call_arguments = [],
     operand = None, lhs = None, rhs = None, store_value = None, store_addr = None,
     destination_block = None, cond_br_condition = None, cond_br_then = None,
     cond_br_else = None, phi_args = []\<rparr>"

definition calloc_IRBlock :: IRBlock where
  "calloc_IRBlock =
    \<lparr>instructions = [], instructions_last = None, block_function = None, block_id = 0\<rparr>"

definition upd_inst :: "inst_ptr \<Rightarrow> (IRInstruction \<Rightarrow> IRInstruction) \<Rightarrow> ir_state \<Rightarrow> ir_state" where
  "upd_inst p f s = s\<lparr>inst_at := (inst_at s)(p := f (inst_at s p))\<rparr>"

definition upd_block :: "block_ptr \<Rightarrow> (IRBlock \<Rightarrow> IRBlock) \<Rightarrow> ir_state \<Rightarrow> ir_state" where
  "upd_block p f s = s\<lparr>block_at := (block_at s)(p := f (block_at s p))\<rparr>"

definition upd_func :: "func_ptr \<Rightarrow> (IRFunction \<Rightarrow> IRFunction) \<Rightarrow> ir_state \<Rightarrow> ir_state" where
  "upd_func p f s = s\<lparr>func_at := (func_at s)(p := f (func_at s p))\<rparr>"

definition alloc_inst :: "ir_state \<Rightarrow> inst_ptr \<times> ir_state" where
  "alloc_inst s =
    (next_inst s,
     s\<lparr>inst_at := (inst_at s)(next_inst s := calloc_IRInstruction),
       next_inst := Suc (next_inst s)\<rparr>)"

definition alloc_block :: "ir_state \<Rightarrow> block_ptr \<times> ir_state" where
  "alloc_block s =
    (next_block s,
     s\<lparr>block_at := (block_at s)(next_block s := calloc_IRBlock),
       next_block := Suc (next_block s)\<rparr>)"

text \<open>\<open>FOREACH_INSTRUCTION_IN_FUNCTION\<close>: every instruction of every block, in order.\<close>

definition function_instructions :: "ir_state \<Rightarrow> func_ptr \<Rightarrow> inst_ptr list" where
  "function_instructions s f =
    concat (map (\<lambda>b. instructions (block_at s b)) (blocks (func_at s f)))"

subsection \<open>IR helpers that the inliner calls\<close>

text \<open>
  Modelled from the spec: the helpers \<open>mark_used\<close>, \<open>ir_remove_use\<close>, \<open>ir_unmark_usees\<close>,
  \<open>ir_replace_uses\<close>, \<open>ir_remove\<close>, \<open>ir_insert_into_block\<close>, \<open>ir_force_insert_into_block\<close>,
  \<open>ir_block_create\<close>, \<open>issue_diagnostic\<close> and \<open>opt_try_convert_to_tail_call\<close> are declared
  in headers and defined in files that are not among the sources. The spec says of them:
  the users set of a value holds exactly the instructions that name it as an operand;
  replacement (RAUW) updates the users set of the old value and of the new; deletion
  unlinks from the owning block, detaches all operand uses, and asserts no remaining
  users; a block is a list of instructions that points back to its function; tail-call
  conversion marks a call whose only user is a return of the same value, or which
  immediately precedes a return in a void context.
\<close>

definition mark_used :: "inst_ptr \<Rightarrow> inst_ptr \<Rightarrow> ir_state \<Rightarrow> ir_state" where
  "mark_used usee user s =
    upd_inst usee (\<lambda>i. i\<lparr>users := (if user \<in> set (users i) then users i else users i @ [user])\<rparr>) s"

definition ir_remove_use :: "inst_ptr \<Rightarrow> inst_ptr \<Rightarrow> ir_state \<Rightarrow> ir_state" where
  "ir_remove_use usee user s = upd_inst usee (\<lambda>i. i\<lparr>users := removeAll user (users i)\<rparr>) s"

definition opt_list :: "'a option \<Rightarrow> 'a list" where
  "opt_list x = (case x of None \<Rightarrow> [] | Some y \<Rightarrow> [y])"

text \<open>The operands of an instruction: the values it names, by kind.\<close>

definition operands :: "IRInstruction \<Rightarrow> inst_ptr list" where
  "operands i =
    (if kind i \<in> {IR_CALL, IR_INTRINSIC} then
       (if call_is_indirect i then opt_list (call_callee_instruction i) else []) @ call_arguments i
     else if kind i \<in> {IR_LOAD, IR_COPY, IR_ZERO_EXTEND, IR_SIGN_EXTEND, IR_TRUNCATE, IR_BITCAST,
                        IR_NOT, IR_RETURN} then opt_list (operand i)
     else if kind i \<in> {IR_ADD, IR_SUB, IR_MUL, IR_DIV, IR_MOD, IR_SHL, IR_SAR, IR_SHR, IR_AND,
                        IR_OR, IR_LT, IR_LE, IR_GT, IR_GE, IR_EQ, IR_NE} then
       opt_list (lhs i) @ opt_list (rhs i)
     else if kind i = IR_STORE then opt_list (store_value i) @ opt_list (store_addr i)
     else if kind i = IR_BRANCH_CONDITIONAL then opt_list (cond_br_condition i)
     else if kind i = IR_PHI then concat (map (\<lambda>a. opt_list (phi_value a)) (phi_args i))
     else [])"

definition ir_unmark_usees :: "inst_ptr \<Rightarrow> ir_state \<Rightarrow> ir_state" where
  "ir_unmark_usees i s = fold (\<lambda>usee. ir_remove_use usee i) (operands (inst_at s i)) s"

definition subst_ptr :: "inst_ptr \<Rightarrow> inst_ptr \<Rightarrow> inst_ptr \<Rightarrow> inst_ptr" where
  "subst_ptr old new p = (if p = old then new else p)"

text \<open>Every operand field of \<open>i\<close> that names \<open>old\<close> names \<open>new\<close> instead.\<close>

definition replace_operand :: "inst_ptr \<Rightarrow> inst_ptr \<Rightarrow> IRInstruction \<Rightarrow> IRInstruction" where
  "replace_operand old new i =
    i\<lparr>call_callee_instruction := map_option (subst_ptr old new) (call_callee_instruction i),
      call_arguments := map (subst_ptr old new) (call_arguments i),
      operand := map_option (subst_ptr old new) (operand i),
      lhs := map_option (subst_ptr old new) (lhs i),
      rhs := map_option (subst_ptr old new) (rhs i),
      store_value := map_option (subst_ptr old new) (store_value i),
      store_addr := map_option (subst_ptr old new) (store_addr i),
      cond_br_condition := map_option (subst_ptr old new) (cond_br_condition i),
      phi_args := map (\<lambda>a. a\<lparr>phi_value := map_option (subst_ptr old new) (phi_value a)\<rparr>)
                      (phi_args i)\<rparr>"

definition ir_replace_uses :: "inst_ptr \<Rightarrow> inst_ptr \<Rightarrow> ir_state \<Rightarrow> ir_state" where
  "ir_replace_uses old new s =
    upd_inst old (\<lambda>i. i\<lparr>users := []\<rparr>)
      (fold (\<lambda>user s. mark_used new user (upd_inst user (replace_operand old new) s))
            (users (inst_at s old)) s)"

definition unlink :: "inst_ptr \<Rightarrow> ir_state \<Rightarrow> ir_state" where
  "unlink i s =
    (case parent_block (inst_at s i) of
       None \<Rightarrow> s
     | Some b \<Rightarrow>
         upd_block b (\<lambda>bl. bl\<lparr>instructions := removeAll i (instructions bl),
             instructions_last :=
               (if instructions_last bl = Some i then
                  (case takeWhile (\<lambda>j. j \<noteq> i) (instructions bl) of
                     [] \<Rightarrow> None | p # ps \<Rightarrow> Some (last (p # ps)))
                else instructions_last bl)\<rparr>) s)"

definition ir_remove :: "inst_ptr \<Rightarrow> ir_state \<Rightarrow> error + ir_state" where
  "ir_remove i s =
    (if users (inst_at s i) \<noteq> [] then Inl AssertionFailed
     else Inr (ir_unmark_usees i (unlink i s)))"

definition ir_force_insert_into_block :: "block_ptr \<Rightarrow> inst_ptr \<Rightarrow> ir_state \<Rightarrow> ir_state" where
  "ir_force_insert_into_block b i s =
    upd_inst i (\<lambda>x. x\<lparr>parent_block := Some b\<rparr>)
      (upd_block b (\<lambda>bl. bl\<lparr>instructions := instructions bl @ [i],
                              instructions_last := Some i\<rparr>) s)"

definition ir_insert_into_block :: "block_ptr \<Rightarrow> inst_ptr \<Rightarrow> ir_state \<Rightarrow> ir_state" where
  "ir_insert_into_block b i s = ir_force_insert_into_block b i s"

definition ir_block_create :: "ir_state \<Rightarrow> block_ptr \<times> ir_state" where
  "ir_block_create s = alloc_block s"

definition issue_diagnostic :: "string \<Rightarrow> ir_state \<Rightarrow> ir_state" where
  "issue_diagnostic msg s = s\<lparr>diagnostics := diagnostics s @ [msg]\<rparr>"

definition tail_call_possible :: "ir_state \<Rightarrow> inst_ptr \<Rightarrow> bool" where
  "tail_call_possible s i =
    (case users (inst_at s i) of
       [] \<Rightarrow>
         (case parent_block (inst_at s i) of
            None \<Rightarrow> False
          | Some b \<Rightarrow>
              (case dropWhile (\<lambda>j. j \<noteq> i) (instructions (block_at s b)) of
                 _ # n # _ \<Rightarrow> kind (inst_at s n) = IR_RETURN \<and> operand (inst_at s n) = None
               | _ \<Rightarrow> False))
     | [u] \<Rightarrow> kind (inst_at s u) = IR_RETURN \<and> operand (inst_at s u) = Some i
     | _ \<Rightarrow> False)"

definition opt_try_convert_to_tail_call :: "inst_ptr \<Rightarrow> ir_state \<Rightarrow> bool \<times> ir_state" where
  "opt_try_convert_to_tail_call i s =
    (if tail_call_possible s i then (True, upd_inst i (\<lambda>x. x\<lparr>call_tail_call := True\<rparr>) s)
     else (False, s))"

section \<open>The inliner (src/codegen/opt/inline.c)\<close>

text \<open>
  An entry of the history. \<open>inlined_via = None\<close> is \<open>ROOT_INLINE_ENTRY\<close>, the index
  \<open>(usz) -1\<close> that no entry has.
\<close>

record history_entry =
  h_call :: inst_ptr
  h_callee :: "func_ptr option"
  inlined_via :: "nat option"

record InlineContext =
  history :: "history_entry list"
  not_inlinable :: "inst_ptr list"
  threshold :: int
  may_fail :: bool

definition instruction_count :: "ir_state \<Rightarrow> func_ptr \<Rightarrow> bool \<Rightarrow> int" where
  "instruction_count s f include_parameters =
    int (length (filter (\<lambda>i. include_parameters \<or> kind (inst_at s i) \<noteq> IR_PARAMETER)
                        (function_instructions s f)))"

subsection \<open>The history check of \<open>ir_inline_call\<close>\<close>

text \<open>
  \<open>foreach_index (i, ictx->history)\<close>: the loop does not stop at a match, so the entry
  found is the last one whose call is \<open>call\<close>.
\<close>

definition find_history :: "history_entry list \<Rightarrow> inst_ptr \<Rightarrow> nat option" where
  "find_history h call =
    fold (\<lambda>i e. if h_call (h ! i) = call then Some i else e) [0..<length h] None"

text \<open>
  The \<open>for (;;)\<close> loop that walks from an entry to its parents. It returns whether an
  entry with the callee was met. Nothing in the loop bounds it, so it is a partial
  function: \<open>None\<close> is the loop that never ends.
\<close>

partial_function (option) walk_history ::
  "history_entry list \<Rightarrow> func_ptr \<Rightarrow> nat \<Rightarrow> (error + bool) option" where
  "walk_history h callee e =
    (if length h \<le> e then Some (Inl OutOfBounds)
     else if h_callee (h ! e) = Some callee then Some (Inr True)
     else (case inlined_via (h ! e) of
             None \<Rightarrow> Some (Inr False)
           | Some p \<Rightarrow> walk_history h callee p))"

declare walk_history.simps [code]

text \<open>
  The ancestry of an entry: \<open>history_ancestor h p q\<close> holds when following \<open>inlined_via\<close>
  from the entry \<open>p\<close> zero or more times reaches the entry \<open>q\<close>.
\<close>

inductive history_ancestor :: "history_entry list \<Rightarrow> nat \<Rightarrow> nat \<Rightarrow> bool" for h where
  here: "p < length h \<Longrightarrow> history_ancestor h p p"
| via: "p < length h \<Longrightarrow> inlined_via (h ! p) = Some p' \<Longrightarrow> history_ancestor h p' q
        \<Longrightarrow> history_ancestor h p q"

subsection \<open>The mapping from the callee's instructions and blocks to their copies\<close>

definition MAP :: "ir_state \<Rightarrow> inst_ptr list \<Rightarrow> inst_ptr option \<Rightarrow> error + inst_ptr" where
  "MAP s instrs x =
    (case x of
       None \<Rightarrow> Inl NullDereference
     | Some p \<Rightarrow>
         if inst_id (inst_at s p) < length instrs then Inr (instrs ! inst_id (inst_at s p))
         else Inl OutOfBounds)"

definition MAP_BLOCK :: "ir_state \<Rightarrow> block_ptr list \<Rightarrow> block_ptr option \<Rightarrow> error + block_ptr" where
  "MAP_BLOCK s blks x =
    (case x of
       None \<Rightarrow> Inl NullDereference
     | Some b \<Rightarrow>
         if block_id (block_at s b) < length blks then Inr (blks ! block_id (block_at s b))
         else Inl OutOfBounds)"

fun MAP_list :: "ir_state \<Rightarrow> inst_ptr list \<Rightarrow> inst_ptr list \<Rightarrow> error + inst_ptr list" where
  "MAP_list s instrs [] = Inr []"
| "MAP_list s instrs (a # as) =
    (case MAP s instrs (Some a) of
       Inl e \<Rightarrow> Inl e
     | Inr m \<Rightarrow> (case MAP_list s instrs as of Inl e \<Rightarrow> Inl e | Inr ms \<Rightarrow> Inr (m # ms)))"

fun MAP_phi_args ::
  "ir_state \<Rightarrow> inst_ptr list \<Rightarrow> block_ptr list \<Rightarrow> IRPhiArgument list \<Rightarrow> error + IRPhiArgument list"
where
  "MAP_phi_args s instrs blks [] = Inr []"
| "MAP_phi_args s instrs blks (a # as) =
    (case MAP s instrs (phi_value a) of
       Inl e \<Rightarrow> Inl e
     | Inr v \<Rightarrow>
        (case MAP_BLOCK s blks (phi_block a) of
           Inl e \<Rightarrow> Inl e
         | Inr b \<Rightarrow>
            (case MAP_phi_args s instrs blks as of
               Inl e \<Rightarrow> Inl e
             | Inr ms \<Rightarrow> Inr (\<lparr>phi_value = Some v, phi_block = Some b\<rparr> # ms))))"

subsection \<open>Skeleton, enumeration and parameters\<close>

fun alloc_insts :: "nat \<Rightarrow> ir_state \<Rightarrow> inst_ptr list \<times> ir_state" where
  "alloc_insts 0 s = ([], s)"
| "alloc_insts (Suc n) s =
    (let (p, s1) = alloc_inst s; (ps, s2) = alloc_insts n s1 in (p # ps, s2))"

text \<open>The new blocks: \<open>b->function = call_block->function\<close>.\<close>

fun alloc_blocks :: "nat \<Rightarrow> func_ptr option \<Rightarrow> ir_state \<Rightarrow> block_ptr list \<times> ir_state" where
  "alloc_blocks 0 fn s = ([], s)"
| "alloc_blocks (Suc n) fn s =
    (let (b, s1) = alloc_block s;
         s2 = upd_block b (\<lambda>bl. bl\<lparr>block_function := fn\<rparr>) s1;
         (bs, s3) = alloc_blocks n fn s2
     in (b # bs, s3))"

fun enumerate_instructions :: "inst_ptr list \<Rightarrow> nat \<Rightarrow> ir_state \<Rightarrow> nat \<times> ir_state" where
  "enumerate_instructions [] n s = (n, s)"
| "enumerate_instructions (i # is) n s =
    (if kind (inst_at s i) = IR_PARAMETER then enumerate_instructions is n s
     else enumerate_instructions is (Suc n) (upd_inst i (\<lambda>x. x\<lparr>inst_id := n\<rparr>) s))"

fun enumerate_blocks :: "block_ptr list \<Rightarrow> nat \<Rightarrow> nat \<Rightarrow> ir_state \<Rightarrow> ir_state" where
  "enumerate_blocks [] bid n s = s"
| "enumerate_blocks (b # bs) bid n s =
    (let s1 = upd_block b (\<lambda>bl. bl\<lparr>block_id := bid\<rparr>) s;
         (n', s2) = enumerate_instructions (instructions (block_at s1 b)) n s1
     in enumerate_blocks bs (Suc bid) n' s2)"

text \<open>
  \<open>foreach_index (param, callee->parameters)\<close>. The index \<open>count - size + param\<close> is
  unsigned: below zero it wraps to an index outside the vector.
\<close>

fun map_parameters ::
  "inst_ptr list \<Rightarrow> nat \<Rightarrow> nat \<Rightarrow> nat \<Rightarrow> inst_ptr list \<Rightarrow> inst_ptr list \<times> ir_state
   \<Rightarrow> error + inst_ptr list \<times> ir_state" where
  "map_parameters [] param count psize args (instrs, s) = Inr (instrs, s)"
| "map_parameters (p # ps) param count psize args (instrs, s) =
    (if count + param < psize then Inl OutOfBounds
     else let mapped_index = count + param - psize in
       if length instrs \<le> mapped_index \<or> length args \<le> param then Inl OutOfBounds
       else map_parameters ps (Suc param) count psize args
              (instrs[mapped_index := args ! param],
               upd_inst p (\<lambda>x. x\<lparr>inst_id := mapped_index\<rparr>) s))"

subsection \<open>Copying the instructions\<close>

text \<open>
  The variables that the copy loop changes: the memory, the vector \<open>instructions\<close>
  (\<open>MAP(inst) = call\<close> overwrites a slot), the history, \<open>return_value\<close> and
  \<open>return_block\<close>.
\<close>

record copy_state =
  cs_mem :: ir_state
  cs_instructions :: "inst_ptr list"
  cs_history :: "history_entry list"
  return_value :: "inst_ptr option"
  return_block :: "block_ptr option"

definition copy_fields ::
  "inst_ptr \<Rightarrow> (IRInstruction \<Rightarrow> IRInstruction) \<Rightarrow> copy_state \<Rightarrow> error + bool \<times> copy_state" where
  "copy_fields copy f cs = Inr (True, cs\<lparr>cs_mem := upd_inst copy f (cs_mem cs)\<rparr>)"

definition copy_unary :: "IRInstruction \<Rightarrow> inst_ptr \<Rightarrow> copy_state \<Rightarrow> error + bool \<times> copy_state" where
  "copy_unary i copy cs =
    (case MAP (cs_mem cs) (cs_instructions cs) (operand i) of
       Inl e \<Rightarrow> Inl e
     | Inr m \<Rightarrow> copy_fields copy (\<lambda>c. c\<lparr>operand := Some m\<rparr>) cs)"

definition copy_binary :: "IRInstruction \<Rightarrow> inst_ptr \<Rightarrow> copy_state \<Rightarrow> error + bool \<times> copy_state" where
  "copy_binary i copy cs =
    (case MAP (cs_mem cs) (cs_instructions cs) (lhs i) of
       Inl e \<Rightarrow> Inl e
     | Inr l \<Rightarrow>
        (case MAP (cs_mem cs) (cs_instructions cs) (rhs i) of
           Inl e \<Rightarrow> Inl e
         | Inr r \<Rightarrow> copy_fields copy (\<lambda>c. c\<lparr>lhs := Some l, rhs := Some r\<rparr>) cs))"

text \<open>
  \<open>case IR_CALL\<close>, which \<open>case IR_INTRINSIC\<close> falls through to. Only an \<open>IR_CALL\<close> is
  recorded in the history, with the index of the call that is being inlined.
\<close>

definition copy_call ::
  "nat \<Rightarrow> IRInstruction \<Rightarrow> inst_ptr \<Rightarrow> copy_state \<Rightarrow> error + bool \<times> copy_state" where
  "copy_call call_history_index i copy cs =
    (case (if call_is_indirect i
           then (case MAP (cs_mem cs) (cs_instructions cs) (call_callee_instruction i) of
                   Inl e \<Rightarrow> Inl e | Inr m \<Rightarrow> Inr (Some m))
           else Inr None) of
       Inl e \<Rightarrow> Inl e
     | Inr callee_inst \<Rightarrow>
        (case MAP_list (cs_mem cs) (cs_instructions cs) (call_arguments i) of
           Inl e \<Rightarrow> Inl e
         | Inr args \<Rightarrow>
            Inr (True,
              cs\<lparr>cs_mem :=
                   upd_inst copy
                     (\<lambda>c. (if call_is_indirect i
                            then c\<lparr>call_callee_instruction := callee_inst\<rparr>
                            else c\<lparr>call_callee_function := call_callee_function i\<rparr>)
                          \<lparr>call_is_indirect := call_is_indirect i,
                           call_tail_call := call_tail_call i,
                           call_arguments := call_arguments c @ args\<rparr>)
                     (cs_mem cs),
                 cs_history :=
                   (if kind i = IR_CALL
                    then cs_history cs @
                         [\<lparr>h_call = copy,
                           h_callee = (if call_is_indirect i then None else call_callee_function i),
                           inlined_via = Some call_history_index\<rparr>]
                    else cs_history cs)\<rparr>)))"

text \<open>
  \<open>case IR_RETURN\<close>. The result says whether the copy is inserted into its block
  (\<open>break\<close>) or dropped (\<open>continue\<close>).
\<close>

definition create_return_block :: "IRInstruction \<Rightarrow> copy_state \<Rightarrow> copy_state" where
  "create_return_block i cs =
    (let (rb, s1) = ir_block_create (cs_mem cs) in
     if operand i \<noteq> None then
       (let (phi, s2) = alloc_inst s1;
            s3 = upd_inst phi (\<lambda>c. c\<lparr>kind := IR_PHI\<rparr>) s2;
            s4 = ir_insert_into_block rb phi s3
        in cs\<lparr>cs_mem := s4, return_block := Some rb, return_value := Some phi\<rparr>)
     else cs\<lparr>cs_mem := s1, return_block := Some rb\<rparr>)"

definition return_to_branch ::
  "inst_ptr \<Rightarrow> block_ptr \<Rightarrow> IRInstruction \<Rightarrow> inst_ptr \<Rightarrow> copy_state \<Rightarrow> error + bool \<times> copy_state"
where
  "return_to_branch call block i copy cs =
    (let s1 = upd_inst copy (\<lambda>c. c\<lparr>kind := IR_BRANCH, destination_block := return_block cs\<rparr>)
                (cs_mem cs)
     in if operand i \<noteq> None then
          (case MAP s1 (cs_instructions cs) (operand i) of
             Inl e \<Rightarrow> Inl e
           | Inr m \<Rightarrow>
              (case return_value cs of
                 None \<Rightarrow> Inl NullDereference
               | Some rv \<Rightarrow>
                  Inr (True,
                    cs\<lparr>cs_mem :=
                         upd_inst rv
                           (\<lambda>c. c\<lparr>phi_args := phi_args c @
                                    [\<lparr>phi_value = Some m, phi_block = Some block\<rparr>]\<rparr>) s1,
                       cs_instructions := (cs_instructions cs)[inst_id i := call]\<rparr>)))
        else Inr (True, cs\<lparr>cs_mem := s1\<rparr>))"

definition copy_return ::
  "inst_ptr \<Rightarrow> bool \<Rightarrow> block_ptr option \<Rightarrow> block_ptr \<Rightarrow> inst_ptr \<Rightarrow> IRInstruction \<Rightarrow> inst_ptr
   \<Rightarrow> copy_state \<Rightarrow> error + bool \<times> copy_state" where
  "copy_return call is_tail_call callee_blocks_last block inst i copy cs =
    (if is_tail_call then
       (case MAP (cs_mem cs) (cs_instructions cs) (operand i) of
          Inl e \<Rightarrow> Inl e
        | Inr m \<Rightarrow> copy_fields copy (\<lambda>c. c\<lparr>operand := Some m\<rparr>) cs)
     else if return_block cs = None then
       (if Some block = callee_blocks_last
           \<and> Some inst = instructions_last (block_at (cs_mem cs) block) then
          (if operand i \<noteq> None then
             (case MAP (cs_mem cs) (cs_instructions cs) (operand i) of
                Inl e \<Rightarrow> Inl e
              | Inr m \<Rightarrow>
                 Inr (False, cs\<lparr>return_value := Some m,
                                cs_instructions := (cs_instructions cs)[inst_id i := call]\<rparr>))
           else Inr (False, cs))
        else return_to_branch call block i copy (create_return_block i cs))
     else return_to_branch call block i copy cs)"

definition copy_data ::
  "inst_ptr \<Rightarrow> bool \<Rightarrow> nat \<Rightarrow> block_ptr list \<Rightarrow> block_ptr option \<Rightarrow> block_ptr \<Rightarrow> inst_ptr
   \<Rightarrow> IRInstruction \<Rightarrow> inst_ptr \<Rightarrow> copy_state \<Rightarrow> error + bool \<times> copy_state" where
  "copy_data call is_tail_call call_history_index blks callee_blocks_last block inst i copy cs =
    (case kind i of
       IR_LIT_INTEGER \<Rightarrow> Inl Unreachable
     | IR_LIT_STRING \<Rightarrow> Inl Unreachable
     | IR_REGISTER \<Rightarrow> Inl Unreachable
     | IR_PARAMETER \<Rightarrow> Inl Unreachable
     | IR_IMMEDIATE \<Rightarrow> copy_fields copy (\<lambda>c. c\<lparr>imm := imm i\<rparr>) cs
     | IR_STATIC_REF \<Rightarrow> copy_fields copy (\<lambda>c. c\<lparr>static_ref := static_ref i\<rparr>) cs
     | IR_FUNC_REF \<Rightarrow> copy_fields copy (\<lambda>c. c\<lparr>function_ref := function_ref i\<rparr>) cs
     | IR_UNREACHABLE \<Rightarrow> copy_fields copy (\<lambda>c. c) cs
     | IR_ALLOCA \<Rightarrow> copy_fields copy (\<lambda>c. c\<lparr>alloca := alloca i\<rparr>) cs
     | IR_INTRINSIC \<Rightarrow>
         copy_call call_history_index i copy
           (cs\<lparr>cs_mem := upd_inst copy (\<lambda>c. c\<lparr>call_intrinsic := call_intrinsic i\<rparr>) (cs_mem cs)\<rparr>)
     | IR_CALL \<Rightarrow> copy_call call_history_index i copy cs
     | IR_LOAD \<Rightarrow> copy_unary i copy cs
     | IR_COPY \<Rightarrow> copy_unary i copy cs
     | IR_ZERO_EXTEND \<Rightarrow> copy_unary i copy cs
     | IR_SIGN_EXTEND \<Rightarrow> copy_unary i copy cs
     | IR_TRUNCATE \<Rightarrow> copy_unary i copy cs
     | IR_BITCAST \<Rightarrow> copy_unary i copy cs
     | IR_NOT \<Rightarrow> copy_unary i copy cs
     | IR_ADD \<Rightarrow> copy_binary i copy cs
     | IR_SUB \<Rightarrow> copy_binary i copy cs
     | IR_MUL \<Rightarrow> copy_binary i copy cs
     | IR_DIV \<Rightarrow> copy_binary i copy cs
     | IR_MOD \<Rightarrow> copy_binary i copy cs
     | IR_SHL \<Rightarrow> copy_binary i copy cs
     | IR_SAR \<Rightarrow> copy_binary i copy cs
     | IR_SHR \<Rightarrow> copy_binary i copy cs
     | IR_AND \<Rightarrow> copy_binary i copy cs
     | IR_OR \<Rightarrow> copy_binary i copy cs
     | IR_LT \<Rightarrow> copy_binary i copy cs
     | IR_LE \<Rightarrow> copy_binary i copy cs
     | IR_GT \<Rightarrow> copy_binary i copy cs
     | IR_GE \<Rightarrow> copy_binary i copy cs
     | IR_EQ \<Rightarrow> copy_binary i copy cs
     | IR_NE \<Rightarrow> copy_binary i copy cs
     | IR_STORE \<Rightarrow>
         (case MAP (cs_mem cs) (cs_instructions cs) (store_value i) of
            Inl e \<Rightarrow> Inl e
          | Inr v \<Rightarrow>
             (case MAP (cs_mem cs) (cs_instructions cs) (store_addr i) of
                Inl e \<Rightarrow> Inl e
              | Inr a \<Rightarrow> copy_fields copy (\<lambda>c. c\<lparr>store_value := Some v, store_addr := Some a\<rparr>) cs))
     | IR_BRANCH \<Rightarrow>
         (case MAP_BLOCK (cs_mem cs) blks (destination_block i) of
            Inl e \<Rightarrow> Inl e
          | Inr b \<Rightarrow> copy_fields copy (\<lambda>c. c\<lparr>destination_block := Some b\<rparr>) cs)
     | IR_BRANCH_CONDITIONAL \<Rightarrow>
         (case MAP (cs_mem cs) (cs_instructions cs) (cond_br_condition i) of
            Inl e \<Rightarrow> Inl e
          | Inr c' \<Rightarrow>
             (case MAP_BLOCK (cs_mem cs) blks (cond_br_then i) of
                Inl e \<Rightarrow> Inl e
              | Inr t \<Rightarrow>
                 (case MAP_BLOCK (cs_mem cs) blks (cond_br_else i) of
                    Inl e \<Rightarrow> Inl e
                  | Inr el \<Rightarrow>
                     copy_fields copy
                       (\<lambda>c. c\<lparr>cond_br_condition := Some c', cond_br_then := Some t,
                              cond_br_else := Some el\<rparr>) cs)))
     | IR_PHI \<Rightarrow>
         (case MAP_phi_args (cs_mem cs) (cs_instructions cs) blks (phi_args i) of
            Inl e \<Rightarrow> Inl e
          | Inr as \<Rightarrow> copy_fields copy (\<lambda>c. c\<lparr>phi_args := phi_args c @ as\<rparr>) cs)
     | IR_RETURN \<Rightarrow> copy_return call is_tail_call callee_blocks_last block inst i copy cs)"

text \<open>The body of the inner loop, for one instruction \<open>inst\<close> of the callee's \<open>block\<close>.\<close>

definition copy_instruction ::
  "inst_ptr \<Rightarrow> bool \<Rightarrow> nat \<Rightarrow> block_ptr list \<Rightarrow> block_ptr option \<Rightarrow> block_ptr \<Rightarrow> inst_ptr
   \<Rightarrow> copy_state \<Rightarrow> error + copy_state" where
  "copy_instruction call is_tail_call call_history_index blks callee_blocks_last block inst cs =
    (let i = inst_at (cs_mem cs) inst in
     if kind i = IR_PARAMETER then Inr cs
     else
       (case MAP (cs_mem cs) (cs_instructions cs) (Some inst) of
          Inl e \<Rightarrow> Inl e
        | Inr copy \<Rightarrow>
           (case copy_data call is_tail_call call_history_index blks callee_blocks_last block
                   inst i copy
                   (cs\<lparr>cs_mem :=
                        upd_inst copy
                          (\<lambda>c. c\<lparr>kind := kind i, type := type i,
                                 backend_flags := backend_flags i\<rparr>) (cs_mem cs)\<rparr>) of
              Inl e \<Rightarrow> Inl e
            | Inr (inserted, cs') \<Rightarrow>
               if inserted then
                 (case MAP_BLOCK (cs_mem cs') blks (Some block) of
                    Inl e \<Rightarrow> Inl e
                  | Inr b \<Rightarrow> Inr (cs'\<lparr>cs_mem := ir_force_insert_into_block b copy (cs_mem cs')\<rparr>))
               else Inr cs')))"

fun copy_instructions ::
  "inst_ptr \<Rightarrow> bool \<Rightarrow> nat \<Rightarrow> block_ptr list \<Rightarrow> block_ptr option \<Rightarrow> block_ptr \<Rightarrow> inst_ptr list
   \<Rightarrow> copy_state \<Rightarrow> error + copy_state" where
  "copy_instructions call tc hi blks bl block [] cs = Inr cs"
| "copy_instructions call tc hi blks bl block (inst # insts) cs =
    (case copy_instruction call tc hi blks bl block inst cs of
       Inl e \<Rightarrow> Inl e
     | Inr cs' \<Rightarrow> copy_instructions call tc hi blks bl block insts cs')"

fun copy_blocks ::
  "inst_ptr \<Rightarrow> bool \<Rightarrow> nat \<Rightarrow> block_ptr list \<Rightarrow> block_ptr option \<Rightarrow> block_ptr list
   \<Rightarrow> copy_state \<Rightarrow> error + copy_state" where
  "copy_blocks call tc hi blks bl [] cs = Inr cs"
| "copy_blocks call tc hi blks bl (block # rest) cs =
    (case copy_instructions call tc hi blks bl block
            (instructions (block_at (cs_mem cs) block)) cs of
       Inl e \<Rightarrow> Inl e
     | Inr cs' \<Rightarrow> copy_blocks call tc hi blks bl rest cs')"

subsection \<open>Uses, the return value, and reconnecting the lists\<close>

fun mark_copies_used :: "inst_ptr list \<Rightarrow> inst_ptr \<Rightarrow> inst_ptr list \<Rightarrow> ir_state \<Rightarrow> error + ir_state"
where
  "mark_copies_used instrs copy [] s = Inr s"
| "mark_copies_used instrs copy (user # us) s =
    (case MAP s instrs (Some user) of
       Inl e \<Rightarrow> Inl e
     | Inr m \<Rightarrow> mark_copies_used instrs copy us (mark_used copy m s))"

fun fix_up_uses :: "inst_ptr list \<Rightarrow> inst_ptr list \<Rightarrow> ir_state \<Rightarrow> error + ir_state" where
  "fix_up_uses instrs [] s = Inr s"
| "fix_up_uses instrs (instruction # rest) s =
    (case MAP s instrs (Some instruction) of
       Inl e \<Rightarrow> Inl e
     | Inr copy \<Rightarrow>
        (case mark_copies_used instrs copy (users (inst_at s instruction)) s of
           Inl e \<Rightarrow> Inl e
         | Inr s' \<Rightarrow> fix_up_uses instrs rest s'))"

text \<open>\<open>while (next) { ir_unmark_usees(next); ir_remove(next); }\<close> over what followed the call.\<close>

fun remove_after_call :: "inst_ptr list \<Rightarrow> ir_state \<Rightarrow> error + ir_state" where
  "remove_after_call [] s = Inr s"
| "remove_after_call (n # ns) s =
    (case ir_remove n (ir_unmark_usees n s) of
       Inl e \<Rightarrow> Inl e
     | Inr s' \<Rightarrow> remove_after_call ns s')"

text \<open>
  The block list of the caller after the two steps that reconnect blocks. With
  \<open>blocks = [call_block, b1, \<dots>]\<close> and, when there is one, the return block pushed at the
  end, \<open>last\<close> is the back of the vector; \<open>last->next = call_block->next\<close> when \<open>last\<close> is
  not \<open>call_block\<close>; then \<open>blocks[i - 1]->next = blocks[i]\<close> for \<open>1 \<le> i < block_count\<close>, where
  \<open>block_count\<close> still counts the callee's blocks only. So, following \<open>next\<close>: without a
  return block the new blocks stand between \<open>call_block\<close> and its old successor; with a
  return block and no new block nothing that \<open>call_block\<close> points to changes; with a return
  block and new blocks the last new block keeps the null \<open>next\<close> of \<open>calloc\<close>.
\<close>

definition connect_blocks ::
  "block_ptr \<Rightarrow> block_ptr list \<Rightarrow> block_ptr option \<Rightarrow> block_ptr list \<Rightarrow> block_ptr list" where
  "connect_blocks call_block new_blocks ret_block chain =
    (if call_block \<notin> set chain then chain
     else
       (let before = takeWhile (\<lambda>b. b \<noteq> call_block) chain;
            after = tl (dropWhile (\<lambda>b. b \<noteq> call_block) chain)
        in case ret_block of
             None \<Rightarrow> before @ call_block # new_blocks @ after
           | Some r \<Rightarrow> if new_blocks = [] then chain else before @ call_block # new_blocks))"

text \<open>
  Everything of \<open>ir_inline_call\<close> after the history check: \<open>call_history_index\<close> is the
  index of the call's entry and \<open>hist\<close> the history with that entry.
\<close>

definition inline_body ::
  "ir_state \<Rightarrow> history_entry list \<Rightarrow> inst_ptr \<Rightarrow> func_ptr \<Rightarrow> nat
   \<Rightarrow> error + ir_state \<times> history_entry list" where
  "inline_body s hist call callee call_history_index =
    (case parent_block (inst_at s call) of
       None \<Rightarrow> Inl NullDereference
     | Some call_block \<Rightarrow>
       (let is_tail_call = call_tail_call (inst_at s call);
            call_prev = takeWhile (\<lambda>i. i \<noteq> call) (instructions (block_at s call_block));
            call_next = tl (dropWhile (\<lambda>i. i \<noteq> call) (instructions (block_at s call_block)));
            count = nat (instruction_count s callee True);
            block_count = length (blocks (func_at s callee));
            s1 = upd_block call_block
                   (\<lambda>bl. bl\<lparr>instructions := call_prev,
                           instructions_last :=
                             (if call_prev = [] then None else Some (last call_prev))\<rparr>) s;
            (instrs, s2) = alloc_insts count s1;
            (new_blocks, s3) =
               alloc_blocks (block_count - 1) (block_function (block_at s2 call_block)) s2;
            blks = call_block # new_blocks;
            s4 = enumerate_blocks (blocks (func_at s3 callee)) 0 0 s3
        in case map_parameters (parameters (func_at s4 callee)) 0 count
                  (length (parameters (func_at s4 callee)))
                  (call_arguments (inst_at s4 call)) (instrs, s4) of
             Inl e \<Rightarrow> Inl e
           | Inr (instrs1, s5) \<Rightarrow>
             (case copy_blocks call is_tail_call call_history_index blks
                     (blocks_last (func_at s5 callee)) (blocks (func_at s5 callee))
                     \<lparr>cs_mem = s5, cs_instructions = instrs1, cs_history = hist,
                      return_value = None, return_block = None\<rparr> of
                Inl e \<Rightarrow> Inl e
              | Inr cs \<Rightarrow>
                (case fix_up_uses (cs_instructions cs)
                        (function_instructions (cs_mem cs) callee) (cs_mem cs) of
                   Inl e \<Rightarrow> Inl e
                 | Inr s6 \<Rightarrow>
                   (let s7 = (case return_value cs of
                                None \<Rightarrow> s6
                              | Some rv \<Rightarrow> ir_replace_uses call rv (ir_remove_use rv call s6))
                    in case ir_remove call s7 of
                         Inl e \<Rightarrow> Inl e
                       | Inr s8 \<Rightarrow>
                         (let last_block = last (blks @ opt_list (return_block cs));
                              s9 = (if instructions_last (block_at s8 last_block) \<noteq> None
                                       \<and> \<not> is_tail_call
                                    then upd_block last_block
                                           (\<lambda>bl. bl\<lparr>instructions := instructions bl @ call_next\<rparr>)
                                           s8
                                    else s8)
                          in case (if call_next \<noteq> [] \<and> is_tail_call
                                   then remove_after_call call_next s9 else Inr s9) of
                               Inl e \<Rightarrow> Inl e
                             | Inr s10 \<Rightarrow>
                               (let s11 = (if last_block \<noteq> call_block \<and> \<not> is_tail_call
                                           then fold (\<lambda>i. upd_inst i
                                                        (\<lambda>x. x\<lparr>parent_block := Some last_block\<rparr>))
                                                  call_next s10
                                           else s10);
                                    s12 = (case block_function (block_at s11 call_block) of
                                             None \<Rightarrow> s11
                                           | Some f \<Rightarrow>
                                               upd_func f
                                                 (\<lambda>fn. fn\<lparr>blocks :=
                                                     connect_blocks call_block new_blocks
                                                       (return_block cs) (blocks fn)\<rparr>) s11)
                                in Inr (s12, cs_history cs))))))))"

text \<open>\<open>ir_inline_call\<close>. \<open>None\<close>: the history walk never ends.\<close>

definition infinite_loop_message :: "ir_state \<Rightarrow> func_ptr \<Rightarrow> func_ptr \<Rightarrow> string" where
  "infinite_loop_message s callee caller =
    ''Failed to inline function '' @ name (func_at s callee) @ '' into '' @
    name (func_at s caller) @ '': Infinite loop detected''"

definition ir_inline_call ::
  "ir_state \<Rightarrow> InlineContext \<Rightarrow> inst_ptr \<Rightarrow> (error + bool \<times> ir_state \<times> InlineContext) option" where
  "ir_inline_call s ictx call =
    (case call_callee_function (inst_at s call) of
       None \<Rightarrow> Some (Inl NullDereference)
     | Some callee \<Rightarrow>
       if instruction_count s callee True = 0 then
         (if users (inst_at s call) \<noteq> [] then Some (Inl AssertionFailed)
          else (case ir_remove call s of
                  Inl e \<Rightarrow> Some (Inl e)
                | Inr s' \<Rightarrow> Some (Inr (True, s', ictx))))
       else
         (case find_history (history ictx) call of
            Some e \<Rightarrow>
              (case inlined_via (history ictx ! e) of
                 None \<Rightarrow> Some (Inl AssertionFailed)
               | Some p \<Rightarrow>
                  (case walk_history (history ictx) callee p of
                     None \<Rightarrow> None
                   | Some (Inl err) \<Rightarrow> Some (Inl err)
                   | Some (Inr True) \<Rightarrow>
                       if may_fail ictx then Some (Inr (False, s, ictx))
                       else
                         (case parent_block (inst_at s call) of
                            None \<Rightarrow> Some (Inl NullDereference)
                          | Some b \<Rightarrow>
                             (case block_function (block_at s b) of
                                None \<Rightarrow> Some (Inl NullDereference)
                              | Some caller \<Rightarrow>
                                 Some (Inr (False,
                                   issue_diagnostic (infinite_loop_message s callee caller) s,
                                   ictx))))
                   | Some (Inr False) \<Rightarrow>
                       (case inline_body s (history ictx) call callee e of
                          Inl err \<Rightarrow> Some (Inl err)
                        | Inr (s', h') \<Rightarrow> Some (Inr (True, s', ictx\<lparr>history := h'\<rparr>)))))
          | None \<Rightarrow>
              (case inline_body s
                      (history ictx @
                         [\<lparr>h_call = call, h_callee = Some callee, inlined_via = None\<rparr>])
                      call callee (length (history ictx)) of
                 Inl err \<Rightarrow> Some (Inl err)
               | Inr (s', h') \<Rightarrow> Some (Inr (True, s', ictx\<lparr>history := h'\<rparr>)))))"

subsection \<open>The pass\<close>

record inline_result =
  changed :: bool
  failed :: bool

text \<open>How the body of the inner loop leaves: \<open>continue\<close>, or \<open>goto again\<close>.\<close>

datatype control = Continue | Again

type_synonym pass_state = "ir_state \<times> InlineContext \<times> inline_result"

definition must_inline :: "ir_state \<Rightarrow> InlineContext \<Rightarrow> func_ptr \<Rightarrow> bool" where
  "must_inline s ictx callee = (attr_forceinline (func_at s callee) \<or> threshold ictx = 0)"

text \<open>The body of the inner loop of \<open>inline_calls_in_function\<close> for the instruction \<open>inst\<close>.\<close>

definition consider_instruction ::
  "func_ptr \<Rightarrow> inst_ptr \<Rightarrow> pass_state \<Rightarrow> (error + control \<times> pass_state) option" where
  "consider_instruction f inst st =
    (case st of (s, ictx, res) \<Rightarrow>
      if kind (inst_at s inst) \<noteq> IR_CALL then Some (Inr (Continue, st))
      else if call_is_indirect (inst_at s inst) then Some (Inr (Continue, st))
      else
        (case call_callee_function (inst_at s inst) of
           None \<Rightarrow> Some (Inl NullDereference)
         | Some callee \<Rightarrow>
            if is_extern (func_at s callee) then Some (Inr (Continue, st))
            else if inst \<in> set (not_inlinable ictx) then Some (Inr (Continue, st))
            else if must_inline s ictx callee
                    \<or> instruction_count s callee False \<le> threshold ictx then
              (if f = callee then
                 (if \<not> call_tail_call (inst_at s inst) \<and> must_inline s ictx callee then
                    (case opt_try_convert_to_tail_call inst s of
                       (True, s') \<Rightarrow> Some (Inr (Continue, (s', ictx, res)))
                     | (False, s') \<Rightarrow>
                        Some (Inr (Continue,
                          ((if may_fail ictx then s'
                            else issue_diagnostic
                                   ''Sorry, could not inline non-tail-recursive call'' s'),
                           ictx\<lparr>not_inlinable := not_inlinable ictx @ [inst]\<rparr>,
                           res\<lparr>failed := True\<rparr>))))
                  else Some (Inr (Continue, st)))
               else
                 (case ir_inline_call s ictx inst of
                    None \<Rightarrow> None
                  | Some (Inl e) \<Rightarrow> Some (Inl e)
                  | Some (Inr (inlined, s', ictx')) \<Rightarrow>
                     if inlined then Some (Inr (Again, (s', ictx', res\<lparr>changed := True\<rparr>)))
                     else Some (Inr (Again,
                            (s', ictx'\<lparr>not_inlinable := not_inlinable ictx' @ [inst]\<rparr>,
                             res\<lparr>failed := True\<rparr>)))))
            else Some (Inr (Continue, st))))"

text \<open>\<open>list_foreach (inst, block->instructions)\<close>, left at the first \<open>goto again\<close>.\<close>

fun scan_instructions ::
  "func_ptr \<Rightarrow> inst_ptr list \<Rightarrow> pass_state \<Rightarrow> (error + control \<times> pass_state) option" where
  "scan_instructions f [] st = Some (Inr (Continue, st))"
| "scan_instructions f (inst # insts) st =
    (case consider_instruction f inst st of
       None \<Rightarrow> None
     | Some (Inl e) \<Rightarrow> Some (Inl e)
     | Some (Inr (Again, st')) \<Rightarrow> Some (Inr (Again, st'))
     | Some (Inr (Continue, st')) \<Rightarrow> scan_instructions f insts st')"

text \<open>
  \<open>for (; block; block = block->next)\<close>, over the blocks from \<open>block\<close> on. The result is
  the block at which \<open>goto again\<close> left the loop, or \<open>None\<close> when the loop ran to its end.
\<close>

fun scan_blocks ::
  "func_ptr \<Rightarrow> block_ptr list \<Rightarrow> pass_state \<Rightarrow> (error + block_ptr option \<times> pass_state) option"
where
  "scan_blocks f [] st = Some (Inr (None, st))"
| "scan_blocks f (block # rest) st =
    (case scan_instructions f (instructions (block_at (fst st) block)) st of
       None \<Rightarrow> None
     | Some (Inl e) \<Rightarrow> Some (Inl e)
     | Some (Inr (Again, st')) \<Rightarrow> Some (Inr (Some block, st'))
     | Some (Inr (Continue, st')) \<Rightarrow> scan_blocks f rest st')"

text \<open>The label \<open>again\<close>: scan from \<open>block\<close>, and come back here after every attempt.\<close>

partial_function (option) inline_again ::
  "func_ptr \<Rightarrow> block_ptr \<Rightarrow> pass_state \<Rightarrow> (error + pass_state) option" where
  "inline_again f block st =
    (case scan_blocks f (dropWhile (\<lambda>b. b \<noteq> block) (blocks (func_at (fst st) f))) st of
       None \<Rightarrow> None
     | Some (Inl e) \<Rightarrow> Some (Inl e)
     | Some (Inr (None, st')) \<Rightarrow> Some (Inr st')
     | Some (Inr (Some block', st')) \<Rightarrow> inline_again f block' st')"

declare inline_again.simps [code]

definition inline_calls_in_function ::
  "ir_state \<Rightarrow> InlineContext \<Rightarrow> func_ptr
   \<Rightarrow> (error + inline_result \<times> ir_state \<times> InlineContext) option" where
  "inline_calls_in_function s ictx f =
    (case blocks (func_at s f) of
       [] \<Rightarrow> Some (Inr (\<lparr>changed = False, failed = False\<rparr>, s, ictx\<lparr>history := []\<rparr>))
     | block # _ \<Rightarrow>
        (case inline_again f block (s, ictx\<lparr>history := []\<rparr>, \<lparr>changed = False, failed = False\<rparr>) of
           None \<Rightarrow> None
         | Some (Inl e) \<Rightarrow> Some (Inl e)
         | Some (Inr (s', ictx', res)) \<Rightarrow> Some (Inr (res, s', ictx'))))"

text \<open>\<open>foreach_val (f, ctx->functions)\<close> of \<open>run_inliner\<close>.\<close>

fun inline_functions ::
  "func_ptr list \<Rightarrow> pass_state \<Rightarrow> (error + pass_state) option" where
  "inline_functions [] st = Some (Inr st)"
| "inline_functions (f # fs) (s, ictx, res) =
    (case inline_calls_in_function s ictx f of
       None \<Rightarrow> None
     | Some (Inl e) \<Rightarrow> Some (Inl e)
     | Some (Inr (r, s', ictx')) \<Rightarrow>
        inline_functions fs
          (s', ictx', \<lparr>changed = (changed r \<or> changed res), failed = (failed r \<or> failed res)\<rparr>))"

definition run_inliner ::
  "ir_state \<Rightarrow> int \<Rightarrow> bool \<Rightarrow> (error + inline_result \<times> ir_state) option" where
  "run_inliner ctx thr mf =
    (case inline_functions (ctx_functions ctx)
            (ctx, \<lparr>history = [], not_inlinable = [], threshold = thr, may_fail = mf\<rparr>,
             \<lparr>changed = False, failed = False\<rparr>) of
       None \<Rightarrow> None
     | Some (Inl e) \<Rightarrow> Some (Inl e)
     | Some (Inr (s, ictx, res)) \<Rightarrow> Some (Inr (res, s)))"

definition opt_inline :: "ir_state \<Rightarrow> int \<Rightarrow> (error + bool \<times> ir_state) option" where
  "opt_inline ctx thr =
    (case run_inliner ctx thr True of
       None \<Rightarrow> None
     | Some (Inl e) \<Rightarrow> Some (Inl e)
     | Some (Inr (res, s)) \<Rightarrow> Some (Inr (changed res, s)))"

definition codegen_process_inline_calls :: "ir_state \<Rightarrow> (error + bool \<times> ir_state) option" where
  "codegen_process_inline_calls ctx =
    (case run_inliner ctx (- 1) False of
       None \<Rightarrow> None
     | Some (Inl e) \<Rightarrow> Some (Inl e)
     | Some (Inr (res, s)) \<Rightarrow> Some (Inr (\<not> failed res, s)))"

subsection \<open>Modules in which the pass finds nothing to inline\<close>

text \<open>
  \<open>inline_candidate s thr f i\<close>: the instruction \<open>i\<close> of the function \<open>f\<close> is a direct call
  that passes the tests of \<open>inline_calls_in_function\<close> up to the call of \<open>ir_inline_call\<close>
  when the not-inlinable set is empty (a direct call without a callee is dereferenced
  by these tests). A module is \<open>settled\<close> for a threshold when none of its functions
  holds such a call.
\<close>

definition inline_candidate :: "ir_state \<Rightarrow> int \<Rightarrow> func_ptr \<Rightarrow> inst_ptr \<Rightarrow> bool" where
  "inline_candidate s thr f i =
    (kind (inst_at s i) = IR_CALL \<and> \<not> call_is_indirect (inst_at s i)
     \<and> (case call_callee_function (inst_at s i) of
          None \<Rightarrow> True
        | Some callee \<Rightarrow>
            \<not> is_extern (func_at s callee) \<and> callee \<noteq> f
            \<and> (attr_forceinline (func_at s callee) \<or> thr = 0
                 \<or> instruction_count s callee False \<le> thr)))"

definition settled :: "ir_state \<Rightarrow> int \<Rightarrow> bool" where
  "settled s thr =
    (\<forall>f \<in> set (ctx_functions s). \<forall>b \<in> set (blocks (func_at s f)).
       \<forall>i \<in> set (instructions (block_at s b)). \<not> inline_candidate s thr f i)"

text \<open>The only change of memory on the paths that inline nothing.\<close>

definition same_but_tail_calls :: "ir_state \<Rightarrow> ir_state \<Rightarrow> bool" where
  "same_but_tail_calls s s' =
    (func_at s' = func_at s \<and> block_at s' = block_at s \<and> ctx_functions s' = ctx_functions s
     \<and> next_inst s' = next_inst s \<and> next_block s' = next_block s
     \<and> (\<forall>i. \<exists>t. inst_at s' i = (inst_at s i)\<lparr>call_tail_call := t\<rparr>))"

text \<open>The states of the pass in which nothing has been inlined.\<close>

definition quiet :: "ir_state \<Rightarrow> int \<Rightarrow> pass_state \<Rightarrow> bool" where
  "quiet s thr st = (case st of (s', ictx, res) \<Rightarrow>
     same_but_tail_calls s s' \<and> threshold ictx = thr \<and> \<not> changed res)"

section \<open>Emitting IR from the AST (src/codegen.c)\<close>

text \<open>
  The AST nodes are heap objects reached through pointers; a node can be reached more
  than once (a declaration from its references, a function body from several callers of
  \<open>codegen_expr\<close>), which is what the \<open>emitted\<close> flag is for. The model keeps the nodes
  in a store. The fields of the union of a node are separate fields, named after the
  member of the union and its field. Children that the source dereferences without a
  test are plain pointers.
\<close>

type_synonym node_ptr = nat
type_synonym ast_type = nat

datatype NodeKind =
    NODE_FUNCTION | NODE_ROOT | NODE_DECLARATION | NODE_IF | NODE_WHILE | NODE_FOR
  | NODE_BLOCK | NODE_CALL | NODE_CAST | NODE_BINARY | NODE_UNARY | NODE_LITERAL
  | NODE_VARIABLE_REFERENCE | NODE_MEMBER_ACCESS | NODE_STRUCTURE_DECLARATION
  | NODE_FUNCTION_REFERENCE | NODE_other

datatype TokenType =
    TK_COLON_EQ | TK_LBRACK | TK_LT | TK_LE | TK_GT | TK_GE | TK_EQ | TK_NE | TK_PLUS
  | TK_MINUS | TK_STAR | TK_SLASH | TK_PERCENT | TK_SHL | TK_SHR | TK_AMPERSAND | TK_PIPE
  | TK_AT | TK_TILDE | TK_NUMBER | TK_STRING | TK_other

record Node =
  node_kind :: NodeKind
  emitted :: bool
  node_ir :: "inst_ptr option"
  address :: "inst_ptr option"
  node_type :: ast_type
  function_ir :: "func_ptr option"
  root_children :: "node_ptr list"
  declaration_init :: "node_ptr option"
  declaration_static :: bool
  declaration_name :: string
  member_access_struct :: node_ptr
  member_byte_offset :: nat
  member_type :: ast_type
  var_node :: node_ptr
  if_condition :: node_ptr
  if_then :: node_ptr
  if_else :: "node_ptr option"
  while_condition :: node_ptr
  while_body :: node_ptr
  for_init :: node_ptr
  for_condition :: node_ptr
  for_iterator :: node_ptr
  for_body :: node_ptr
  block_children :: "node_ptr list"
  call_callee :: node_ptr
  call_args :: "node_ptr list"
  cast_value :: node_ptr
  binary_op :: TokenType
  binary_lhs :: node_ptr
  binary_rhs :: node_ptr
  unary_op :: TokenType
  unary_postfix :: bool
  unary_value :: node_ptr
  literal_type :: TokenType
  literal_integer :: nat
  literal_string_index :: nat
  literal_compound :: "node_ptr list"

text \<open>
  The functions of the IR builder that \<open>codegen_expr\<close> and \<open>codegen_lvalue\<close> call, with
  their arguments. \<open>ir_call\<close> lists those that yield an instruction, \<open>ir_command\<close> those
  that yield nothing.
\<close>

datatype ir_call =
    Ir_funcref "func_ptr option"
  | Ir_return "inst_ptr option"
  | Ir_load "inst_ptr option"
  | Ir_store "inst_ptr option" "inst_ptr option"
  | Ir_branch block_ptr
  | Ir_branch_conditional "inst_ptr option" block_ptr block_ptr
  | Ir_phi ast_type
  | Ir_direct_call "func_ptr option"
  | Ir_indirect_call "inst_ptr option"
  | Ir_bitcast ast_type "inst_ptr option"
  | Ir_sign_extend ast_type "inst_ptr option"
  | Ir_zero_extend ast_type "inst_ptr option"
  | Ir_truncate ast_type "inst_ptr option"
  | Ir_copy "inst_ptr option"
  | Ir_immediate ast_type nat
  | Ir_binary IRKind "inst_ptr option" "inst_ptr option"
  | Ir_not "inst_ptr option"
  | Ir_create_static node_ptr ast_type string
  | Ir_stack_allocate ast_type
  | Ir_instruction_lit_integer nat
  | Ir_instruction_lit_string nat

datatype ir_command =
    Ir_phi_argument inst_ptr block_ptr "inst_ptr option"
  | Ir_add_function_call_argument inst_ptr "inst_ptr option"
  | Ir_insert inst_ptr
  | Ir_block_attach block_ptr
  | Ir_set_type inst_ptr ast_type
  | Ir_set_static_init "inst_ptr option" inst_ptr
  | Ir_femit_instruction inst_ptr

text \<open>
  What \<open>codegen.c\<close> uses and does not define: the IR builder, working on a state \<open>'b\<close>
  of its own (the blocks and instructions built so far and the current block), the
  queries on types, \<open>is_lvalue\<close>, and the sizes of the strings of the AST. They are
  parameters of the model; nothing is assumed of them. A builder function can abort the
  compiler (\<open>ICE\<close>): \<open>Inl\<close>.
\<close>

record 'b env =
  ir_build :: "ir_call \<Rightarrow> 'b \<Rightarrow> error + inst_ptr \<times> 'b"
  ir_do :: "ir_command \<Rightarrow> 'b \<Rightarrow> error + 'b"
  ir_new_block :: "'b \<Rightarrow> block_ptr \<times> 'b"
  ir_is_closed :: "'b \<Rightarrow> bool"
  ctx_block :: "'b \<Rightarrow> block_ptr"
  ir_kind :: "'b \<Rightarrow> inst_ptr \<Rightarrow> IRKind"
  ir_type :: "'b \<Rightarrow> inst_ptr \<Rightarrow> ast_type"
  type_is_void :: "ast_type \<Rightarrow> bool"
  type_is_array :: "ast_type \<Rightarrow> bool"
  type_is_pointer :: "ast_type \<Rightarrow> bool"
  type_is_function :: "ast_type \<Rightarrow> bool"
  type_is_signed_primitive :: "ast_type \<Rightarrow> bool"
  type_sizeof :: "ast_type \<Rightarrow> nat"
  pointer_to :: "ast_type \<Rightarrow> ast_type"
  array_of :: "ast_type \<Rightarrow> ast_type"
  ast_make_type_pointer :: "ast_type \<Rightarrow> ast_type"
  t_integer :: ast_type
  is_lvalue :: "Node \<Rightarrow> bool"
  string_size :: "nat \<Rightarrow> nat"

text \<open>
  The state of code generation: the nodes, the state of the builder, the static counter
  \<open>string_literal_count\<close>, and the diagnostics issued by \<open>ERR\<close> and \<open>DIAG\<close>.
\<close>

record 'b cg_state =
  nodes :: "node_ptr \<Rightarrow> Node"
  builder :: 'b
  string_literal_count :: nat
  cg_diagnostics :: "string list"

text \<open>
  A run of \<open>codegen_expr\<close> either returns with a new state, or aborts (\<open>ICE\<close>, \<open>TODO\<close>, a
  failed \<open>ASSERT\<close>, a null pointer), or does not return: \<open>Some (Inr s)\<close>, \<open>Some (Inl e)\<close>,
  \<open>None\<close>. The recursion follows pointers between nodes, so the functions take fuel, and
  a run that exhausts it counts as not returned.
\<close>

type_synonym 'b run = "(error + 'b cg_state) option"

definition returns :: "'b cg_state \<Rightarrow> 'b run" where
  "returns s = Some (Inr s)"

definition aborts :: "error \<Rightarrow> 'b run" where
  "aborts e = Some (Inl e)"

definition then_do :: "(error + 'a) option \<Rightarrow> ('a \<Rightarrow> (error + 'c) option) \<Rightarrow> (error + 'c) option"
where
  "then_do m k = (case m of None \<Rightarrow> None | Some (Inl e) \<Rightarrow> Some (Inl e) | Some (Inr x) \<Rightarrow> k x)"

definition build ::
  "'b env \<Rightarrow> ir_call \<Rightarrow> 'b cg_state \<Rightarrow> (inst_ptr \<Rightarrow> 'b cg_state \<Rightarrow> (error + 'c) option)
   \<Rightarrow> (error + 'c) option" where
  "build E c s k =
    (case ir_build E c (builder s) of
       Inl e \<Rightarrow> Some (Inl e)
     | Inr (v, b) \<Rightarrow> k v (s\<lparr>builder := b\<rparr>))"

definition command ::
  "'b env \<Rightarrow> ir_command \<Rightarrow> 'b cg_state \<Rightarrow> ('b cg_state \<Rightarrow> (error + 'c) option)
   \<Rightarrow> (error + 'c) option" where
  "command E c s k =
    (case ir_do E c (builder s) of
       Inl e \<Rightarrow> Some (Inl e)
     | Inr b \<Rightarrow> k (s\<lparr>builder := b\<rparr>))"

definition ir_block_create_in ::
  "'b env \<Rightarrow> 'b cg_state \<Rightarrow> (block_ptr \<Rightarrow> 'b cg_state \<Rightarrow> (error + 'c) option)
   \<Rightarrow> (error + 'c) option" where
  "ir_block_create_in E s k =
    (case ir_new_block E (builder s) of (b, bs) \<Rightarrow> k b (s\<lparr>builder := bs\<rparr>))"

definition set_ir :: "node_ptr \<Rightarrow> inst_ptr option \<Rightarrow> 'b cg_state \<Rightarrow> 'b cg_state" where
  "set_ir expr v s = s\<lparr>nodes := (nodes s)(expr := (nodes s expr)\<lparr>node_ir := v\<rparr>)\<rparr>"

definition set_address :: "node_ptr \<Rightarrow> inst_ptr option \<Rightarrow> 'b cg_state \<Rightarrow> 'b cg_state" where
  "set_address lval v s = s\<lparr>nodes := (nodes s)(lval := (nodes s lval)\<lparr>address := v\<rparr>)\<rparr>"

definition set_emitted :: "node_ptr \<Rightarrow> 'b cg_state \<Rightarrow> 'b cg_state" where
  "set_emitted expr s = s\<lparr>nodes := (nodes s)(expr := (nodes s expr)\<lparr>emitted := True\<rparr>)\<rparr>"

definition ERR :: "string \<Rightarrow> 'b cg_state \<Rightarrow> 'b run" where
  "ERR msg s = returns (s\<lparr>cg_diagnostics := cg_diagnostics s @ [msg]\<rparr>)"

text \<open>\<open>%zu\<close> of \<open>snprintf\<close>: the decimal digits of a number.\<close>

fun digits :: "nat \<Rightarrow> string" where
  "digits n =
    (if n < 10 then [char_of (48 + n)] else digits (n div 10) @ [char_of (48 + n mod 10)])"

declare digits.simps [simp del]

text \<open>The binary operators of the last switch of \<open>NODE_BINARY\<close>, with the builder's kind.\<close>

fun binary_kind :: "TokenType \<Rightarrow> IRKind option" where
  "binary_kind TK_LT = Some IR_LT"
| "binary_kind TK_LE = Some IR_LE"
| "binary_kind TK_GT = Some IR_GT"
| "binary_kind TK_GE = Some IR_GE"
| "binary_kind TK_EQ = Some IR_EQ"
| "binary_kind TK_NE = Some IR_NE"
| "binary_kind TK_PLUS = Some IR_ADD"
| "binary_kind TK_MINUS = Some IR_SUB"
| "binary_kind TK_STAR = Some IR_MUL"
| "binary_kind TK_SLASH = Some IR_DIV"
| "binary_kind TK_PERCENT = Some IR_MOD"
| "binary_kind TK_SHL = Some IR_SHL"
| "binary_kind TK_SHR = Some IR_SAR"
| "binary_kind TK_AMPERSAND = Some IR_AND"
| "binary_kind TK_PIPE = Some IR_OR"
| "binary_kind _ = None"

text \<open>
  \<open>codegen_expr\<close> and \<open>codegen_lvalue\<close> call themselves and each other along the
  pointers between nodes. The bodies are written first, with the recursive calls as the
  parameters \<open>rec_expr\<close> and \<open>rec_lvalue\<close>; \<open>codegen\<close> then ties them together, giving each
  nested call one unit of fuel less. There is one definition for each case of the two
  switches. The loops over children are functions of their own: \<open>codegen_children\<close> is
  \<open>foreach_ptr (Node *, child, ...)\<close> of \<open>NODE_ROOT\<close> and \<open>NODE_BLOCK\<close> (it yields \<open>last\<close>),
  \<open>codegen_arguments\<close> the loop of \<open>NODE_CALL\<close>, \<open>codegen_compound\<close> the loop over the
  elements of an array literal.
\<close>

type_synonym 'b codegen_fn = "node_ptr \<Rightarrow> 'b cg_state \<Rightarrow> 'b run"

fun codegen_children ::
  "'b codegen_fn \<Rightarrow> node_ptr list \<Rightarrow> node_ptr option \<Rightarrow> 'b cg_state
   \<Rightarrow> (error + node_ptr option \<times> 'b cg_state) option" where
  "codegen_children rec_expr [] last_child s = Some (Inr (last_child, s))"
| "codegen_children rec_expr (child # rest) last_child s =
    (if node_kind (nodes s child) = NODE_FUNCTION then codegen_children rec_expr rest last_child s
     else then_do (rec_expr child s) (\<lambda>s1. codegen_children rec_expr rest (Some child) s1))"

fun codegen_arguments ::
  "'b env \<Rightarrow> 'b codegen_fn \<Rightarrow> inst_ptr \<Rightarrow> node_ptr list \<Rightarrow> 'b cg_state \<Rightarrow> 'b run" where
  "codegen_arguments E rec_expr call [] s = returns s"
| "codegen_arguments E rec_expr call (arg # rest) s =
    then_do (rec_expr arg s)
      (\<lambda>s1. command E (Ir_add_function_call_argument call (node_ir (nodes s1 arg))) s1
               (\<lambda>s2. codegen_arguments E rec_expr call rest s2))"

fun codegen_compound ::
  "'b env \<Rightarrow> 'b codegen_fn \<Rightarrow> node_ptr \<Rightarrow> node_ptr list \<Rightarrow> nat \<Rightarrow> inst_ptr \<Rightarrow> 'b cg_state
   \<Rightarrow> 'b run" where
  "codegen_compound E rec_expr expr [] index element s = returns s"
| "codegen_compound E rec_expr expr (node # rest) index element s =
    then_do (rec_expr node s)
      (\<lambda>s1. build E (Ir_store (node_ir (nodes s1 node)) (Some element)) s1
      (\<lambda>_ s2. if Suc index = length (literal_compound (nodes s2 expr)) then returns s2
               else build E (Ir_immediate (t_integer E)
                               (type_sizeof E (array_of E (node_type (nodes s2 expr))))) s2
                    (\<lambda>sz s3. build E (Ir_binary IR_ADD (Some element) (Some sz)) s3
                    (\<lambda>next_element s4. codegen_compound E rec_expr expr rest (Suc index) next_element s4))))"

subsection \<open>The cases of \<open>codegen_lvalue\<close>\<close>

definition lvalue_declaration ::
  "'b env \<Rightarrow> 'b codegen_fn \<Rightarrow> 'b codegen_fn \<Rightarrow> node_ptr \<Rightarrow> 'b cg_state \<Rightarrow> 'b run" where
  "lvalue_declaration E rec_expr rec_lvalue lval s =
    build E (if declaration_static (nodes s lval)
             then Ir_create_static lval (node_type (nodes s lval)) (declaration_name (nodes s lval))
             else Ir_stack_allocate (node_type (nodes s lval))) s
      (\<lambda>a s1. let s2 = set_address lval (Some a) s1 in
         case declaration_init (nodes s2 lval) of
           None \<Rightarrow> returns s2
         | Some init \<Rightarrow>
            if declaration_static (nodes s2 lval) \<and> node_kind (nodes s2 init) = NODE_LITERAL
               \<and> literal_type (nodes s2 init) \<noteq> TK_LBRACK then
              (if literal_type (nodes s2 init) = TK_NUMBER then
                 build E (Ir_instruction_lit_integer (literal_integer (nodes s2 init))) s2
                   (\<lambda>i s3. command E (Ir_set_static_init (address (nodes s3 lval)) i) s3 returns)
               else if literal_type (nodes s2 init) = TK_STRING then
                 build E (Ir_instruction_lit_string (literal_string_index (nodes s2 init))) s2
                   (\<lambda>i s3. command E (Ir_set_static_init (address (nodes s3 lval)) i) s3 returns)
               else aborts AssertionFailed)
            else
              then_do (rec_expr init s2)
                (\<lambda>s3. build E (Ir_store (node_ir (nodes s3 init)) (address (nodes s3 lval))) s3
                         (\<lambda>_. returns)))"

definition lvalue_member_access ::
  "'b env \<Rightarrow> 'b codegen_fn \<Rightarrow> 'b codegen_fn \<Rightarrow> node_ptr \<Rightarrow> 'b cg_state \<Rightarrow> 'b run" where
  "lvalue_member_access E rec_expr rec_lvalue lval s =
    then_do (rec_lvalue (member_access_struct (nodes s lval)) s)
      (\<lambda>s1. build E (Ir_immediate (t_integer E) (member_byte_offset (nodes s1 lval))) s1
        (\<lambda>off s2. build E (Ir_binary IR_ADD
                             (address (nodes s2 (member_access_struct (nodes s2 lval)))) (Some off)) s2
          (\<lambda>a s3. command E (Ir_set_type a (ast_make_type_pointer E (member_type (nodes s3 lval))))
                     (set_address lval (Some a) s3) returns)))"

definition lvalue_unary ::
  "'b env \<Rightarrow> 'b codegen_fn \<Rightarrow> 'b codegen_fn \<Rightarrow> node_ptr \<Rightarrow> 'b cg_state \<Rightarrow> 'b run" where
  "lvalue_unary E rec_expr rec_lvalue lval s =
    (if \<not> unary_postfix (nodes s lval) \<and> unary_op (nodes s lval) = TK_AT then
       then_do (rec_expr (unary_value (nodes s lval)) s)
         (\<lambda>s1. returns (set_address lval (node_ir (nodes s1 (unary_value (nodes s1 lval)))) s1))
     else aborts AssertionFailed)"

definition lvalue_variable_reference ::
  "'b env \<Rightarrow> 'b codegen_fn \<Rightarrow> 'b codegen_fn \<Rightarrow> node_ptr \<Rightarrow> 'b cg_state \<Rightarrow> 'b run" where
  "lvalue_variable_reference E rec_expr rec_lvalue lval s =
    (if address (nodes s (var_node (nodes s lval))) = None then aborts AssertionFailed
     else returns (set_address lval (address (nodes s (var_node (nodes s lval)))) s))"

text \<open>\<open>codegen_lvalue\<close>: nothing to do when the node has an address, else the switch.\<close>

definition codegen_lvalue_body ::
  "'b env \<Rightarrow> 'b codegen_fn \<Rightarrow> 'b codegen_fn \<Rightarrow> node_ptr \<Rightarrow> 'b cg_state \<Rightarrow> 'b run" where
  "codegen_lvalue_body E rec_expr rec_lvalue lval s =
    (if address (nodes s lval) \<noteq> None then returns s
     else
       (case node_kind (nodes s lval) of
            NODE_FUNCTION \<Rightarrow> aborts AssertionFailed
          | NODE_ROOT \<Rightarrow> aborts AssertionFailed
          | NODE_DECLARATION \<Rightarrow> lvalue_declaration E rec_expr rec_lvalue lval s
          | NODE_IF \<Rightarrow> aborts AssertionFailed
          | NODE_WHILE \<Rightarrow> aborts AssertionFailed
          | NODE_FOR \<Rightarrow> aborts AssertionFailed
          | NODE_BLOCK \<Rightarrow> aborts AssertionFailed
          | NODE_CALL \<Rightarrow> aborts AssertionFailed
          | NODE_CAST \<Rightarrow> aborts AssertionFailed
          | NODE_BINARY \<Rightarrow> aborts AssertionFailed
          | NODE_UNARY \<Rightarrow> lvalue_unary E rec_expr rec_lvalue lval s
          | NODE_LITERAL \<Rightarrow> aborts AssertionFailed
          | NODE_VARIABLE_REFERENCE \<Rightarrow> lvalue_variable_reference E rec_expr rec_lvalue lval s
          | NODE_MEMBER_ACCESS \<Rightarrow> lvalue_member_access E rec_expr rec_lvalue lval s
          | NODE_STRUCTURE_DECLARATION \<Rightarrow> aborts AssertionFailed
          | NODE_FUNCTION_REFERENCE \<Rightarrow> aborts AssertionFailed
          | NODE_other \<Rightarrow> aborts AssertionFailed))"

subsection \<open>The cases of \<open>codegen_expr\<close>\<close>

definition expr_function ::
  "'b env \<Rightarrow> 'b codegen_fn \<Rightarrow> 'b codegen_fn \<Rightarrow> node_ptr \<Rightarrow> 'b cg_state \<Rightarrow> 'b run" where
  "expr_function E rec_expr rec_lvalue expr s =
    build E (Ir_funcref (function_ir (nodes s expr))) s
      (\<lambda>v s1. returns (set_ir expr (Some v) s1))"

definition expr_root ::
  "'b env \<Rightarrow> 'b codegen_fn \<Rightarrow> 'b codegen_fn \<Rightarrow> node_ptr \<Rightarrow> 'b cg_state \<Rightarrow> 'b run" where
  "expr_root E rec_expr rec_lvalue expr s =
    then_do (codegen_children rec_expr (root_children (nodes s expr)) None s)
      (\<lambda>(_, s1).
         if \<not> ir_is_closed E (builder s1) then
           (if root_children (nodes s1 expr) = [] then aborts OutOfBounds
            else build E (Ir_return (node_ir (nodes s1 (last (root_children (nodes s1 expr)))))) s1
                   (\<lambda>_. returns))
         else returns s1)"

definition expr_member_access ::
  "'b env \<Rightarrow> 'b codegen_fn \<Rightarrow> 'b codegen_fn \<Rightarrow> node_ptr \<Rightarrow> 'b cg_state \<Rightarrow> 'b run" where
  "expr_member_access E rec_expr rec_lvalue expr s =
    then_do (rec_lvalue expr s)
      (\<lambda>s1. build E (Ir_load (address (nodes s1 expr))) s1
               (\<lambda>v s2. returns (set_ir expr (Some v) s2)))"

definition expr_variable_reference ::
  "'b env \<Rightarrow> 'b codegen_fn \<Rightarrow> 'b codegen_fn \<Rightarrow> node_ptr \<Rightarrow> 'b cg_state \<Rightarrow> 'b run" where
  "expr_variable_reference E rec_expr rec_lvalue expr s =
    then_do (rec_lvalue expr s)
      (\<lambda>s1. build E (Ir_load (address (nodes s1 expr))) s1
               (\<lambda>v s2. returns (set_ir expr (Some v) s2)))"

definition expr_if ::
  "'b env \<Rightarrow> 'b codegen_fn \<Rightarrow> 'b codegen_fn \<Rightarrow> node_ptr \<Rightarrow> 'b cg_state \<Rightarrow> 'b run" where
  "expr_if E rec_expr rec_lvalue expr s =
    then_do (rec_expr (if_condition (nodes s expr)) s)
     (\<lambda>s1. ir_block_create_in E s1
     (\<lambda>then_block s2. ir_block_create_in E s2
     (\<lambda>else_block s3. ir_block_create_in E s3
     (\<lambda>join_block s4.
        build E (Ir_branch_conditional (node_ir (nodes s4 (if_condition (nodes s4 expr))))
                   then_block else_block) s4
     (\<lambda>_ s5. command E (Ir_block_attach then_block) s5
     (\<lambda>s6. then_do (rec_expr (if_then (nodes s6 expr)) s6)
     (\<lambda>s7. let last_then_block = ctx_block E (builder s7) in
        then_do (if \<not> ir_is_closed E (builder s7)
                 then build E (Ir_branch join_block) s7 (\<lambda>_. returns) else returns s7)
     (\<lambda>s8. command E (Ir_block_attach else_block) s8
     (\<lambda>s9. then_do (case if_else (nodes s9 expr) of
                       None \<Rightarrow> Some (Inr (else_block, s9))
                     | Some e \<Rightarrow> then_do (rec_expr e s9)
                                  (\<lambda>s10. Some (Inr (ctx_block E (builder s10), s10))))
     (\<lambda>(last_else_block, s11).
        then_do (if \<not> ir_is_closed E (builder s11)
                 then build E (Ir_branch join_block) s11 (\<lambda>_. returns) else returns s11)
     (\<lambda>s12. command E (Ir_block_attach join_block) s12
     (\<lambda>s13. if \<not> type_is_void E (node_type (nodes s13 expr)) then
          build E (Ir_phi (node_type (nodes s13 expr))) s13
          (\<lambda>phi s14. command E (Ir_phi_argument phi last_then_block
                                  (node_ir (nodes s14 (if_then (nodes s14 expr))))) s14
          (\<lambda>s15. case if_else (nodes s15 expr) of
                    None \<Rightarrow> aborts NullDereference
                  | Some e \<Rightarrow>
                     command E (Ir_phi_argument phi last_else_block (node_ir (nodes s15 e))) s15
                       (\<lambda>s16. returns (set_ir expr (Some phi) s16))))
        else returns s13))))))))))))"

definition expr_while ::
  "'b env \<Rightarrow> 'b codegen_fn \<Rightarrow> 'b codegen_fn \<Rightarrow> node_ptr \<Rightarrow> 'b cg_state \<Rightarrow> 'b run" where
  "expr_while E rec_expr rec_lvalue expr s =
    ir_block_create_in E s
     (\<lambda>while_cond_block s1. ir_block_create_in E s1
     (\<lambda>join_block s2. build E (Ir_branch while_cond_block) s2
     (\<lambda>_ s3. command E (Ir_block_attach while_cond_block) s3
     (\<lambda>s4. then_do (rec_expr (while_condition (nodes s4 expr)) s4)
     (\<lambda>s5. if block_children (nodes s5 (while_body (nodes s5 expr))) = [] then
          build E (Ir_branch_conditional (node_ir (nodes s5 (while_condition (nodes s5 expr))))
                     while_cond_block join_block) s5
            (\<lambda>_ s6. command E (Ir_block_attach join_block) s6 returns)
        else
          ir_block_create_in E s5
          (\<lambda>while_body_block s6.
             build E (Ir_branch_conditional (node_ir (nodes s6 (while_condition (nodes s6 expr))))
                        while_body_block join_block) s6
          (\<lambda>_ s7. command E (Ir_block_attach while_body_block) s7
          (\<lambda>s8. then_do (rec_expr (while_body (nodes s8 expr)) s8)
          (\<lambda>s9. then_do (if \<not> ir_is_closed E (builder s9)
                          then build E (Ir_branch while_cond_block) s9 (\<lambda>_. returns)
                          else returns s9)
          (\<lambda>s10. command E (Ir_block_attach join_block) s10 returns))))))))))"

definition expr_block ::
  "'b env \<Rightarrow> 'b codegen_fn \<Rightarrow> 'b codegen_fn \<Rightarrow> node_ptr \<Rightarrow> 'b cg_state \<Rightarrow> 'b run" where
  "expr_block E rec_expr rec_lvalue expr s =
    then_do (codegen_children rec_expr (block_children (nodes s expr)) None s)
      (\<lambda>(last_child, s1).
         if \<not> type_is_void E (node_type (nodes s1 expr)) then
           (case last_child of
              None \<Rightarrow> aborts AssertionFailed
            | Some l \<Rightarrow>
               if node_ir (nodes s1 l) = None then aborts AssertionFailed
               else returns (set_ir expr (node_ir (nodes s1 l)) s1))
         else returns s1)"

definition expr_call ::
  "'b env \<Rightarrow> 'b codegen_fn \<Rightarrow> 'b codegen_fn \<Rightarrow> node_ptr \<Rightarrow> 'b cg_state \<Rightarrow> 'b run" where
  "expr_call E rec_expr rec_lvalue expr s =
    then_do
      (if node_kind (nodes s (call_callee (nodes s expr))) = NODE_FUNCTION then
         build E (Ir_direct_call (function_ir (nodes s (call_callee (nodes s expr))))) s
           (\<lambda>c s1. Some (Inr (c, s1)))
       else
         then_do (rec_expr (call_callee (nodes s expr)) s)
           (\<lambda>s1. build E (Ir_indirect_call (node_ir (nodes s1 (call_callee (nodes s1 expr))))) s1
                    (\<lambda>c s2. Some (Inr (c, s2)))))
      (\<lambda>(call, s3).
         then_do (codegen_arguments E rec_expr call (call_args (nodes s3 expr)) s3)
           (\<lambda>s4. command E (Ir_insert call) s4
                    (\<lambda>s5. returns (set_ir expr (Some call) s5))))"

definition expr_cast ::
  "'b env \<Rightarrow> 'b codegen_fn \<Rightarrow> 'b codegen_fn \<Rightarrow> node_ptr \<Rightarrow> 'b cg_state \<Rightarrow> 'b run" where
  "expr_cast E rec_expr rec_lvalue expr s =
    (let t_to = node_type (nodes s expr);
         t_from = node_type (nodes s (cast_value (nodes s expr)));
         to_sz = type_sizeof E t_to;
         from_sz = type_sizeof E t_from;
         from_signed = type_is_signed_primitive E t_from
     in then_do (rec_expr (cast_value (nodes s expr)) s)
          (\<lambda>s1. build E
             ((if from_sz = to_sz then Ir_bitcast
               else if from_sz < to_sz then (if from_signed then Ir_sign_extend else Ir_zero_extend)
               else Ir_truncate) t_to (node_ir (nodes s1 (cast_value (nodes s1 expr))))) s1
             (\<lambda>v s2. returns (set_ir expr (Some v) s2))))"

definition expr_binary ::
  "'b env \<Rightarrow> 'b codegen_fn \<Rightarrow> 'b codegen_fn \<Rightarrow> node_ptr \<Rightarrow> 'b cg_state \<Rightarrow> 'b run" where
  "expr_binary E rec_expr rec_lvalue expr s =
    (let lhs = binary_lhs (nodes s expr); rhs = binary_rhs (nodes s expr) in
     if binary_op (nodes s expr) = TK_COLON_EQ then
       then_do (rec_expr rhs s)
       (\<lambda>s1. then_do (rec_lvalue lhs s1)
       (\<lambda>s2. build E (Ir_store (node_ir (nodes s2 rhs)) (address (nodes s2 lhs))) s2
       (\<lambda>v s3. returns (set_ir expr (Some v) s3))))
     else if binary_op (nodes s expr) = TK_LBRACK then
       (if \<not> type_is_array E (node_type (nodes s lhs))
           \<and> \<not> type_is_pointer E (node_type (nodes s lhs)) then
          ERR ''Subscript operator may only operate on arrays and pointers'' s
        else
          then_do
            (if node_kind (nodes s lhs) = NODE_VARIABLE_REFERENCE then
               (case address (nodes s (var_node (nodes s lhs))) of
                  None \<Rightarrow> Some (Inl NullDereference)
                | Some var_decl \<Rightarrow>
                   if ir_kind E (builder s) var_decl = IR_STATIC_REF
                      \<or> ir_kind E (builder s) var_decl = IR_ALLOCA then
                     (if type_is_pointer E (ir_type E (builder s) var_decl)
                         \<and> type_is_pointer E (pointer_to E (ir_type E (builder s) var_decl)) then
                        build E (Ir_load (Some var_decl)) s (\<lambda>v s1. Some (Inr (Inr (Some v), s1)))
                      else Some (Inr (Inr (Some var_decl), s)))
                   else
                     command E (Ir_femit_instruction var_decl) s
                       (\<lambda>s1. then_do (ERR ''Unhandled variable reference IR instruction kind'' s1)
                                (\<lambda>s2. Some (Inr (Inl (), s2)))))
             else if is_lvalue E (nodes s lhs) then
               then_do (rec_lvalue lhs s)
                 (\<lambda>s1. Some (Inr (Inr (address (nodes s1 lhs)), s1)))
             else if node_kind (nodes s lhs) = NODE_LITERAL \<and> literal_type (nodes s lhs) = TK_STRING
             then
               then_do (rec_expr lhs s)
                 (\<lambda>s1.
                   if node_kind (nodes s1 rhs) = NODE_LITERAL \<and> literal_type (nodes s1 rhs) = TK_NUMBER
                   then
                     then_do
                       (if string_size E (literal_string_index (nodes s1 lhs))
                             \<le> literal_integer (nodes s1 rhs)
                        then ERR ''Out of bounds: subscript too large for string literal.'' s1
                        else if literal_integer (nodes s1 rhs) \<noteq> 0 then
                          build E (Ir_immediate (t_integer E) (literal_integer (nodes s1 rhs))) s1
                          (\<lambda>i s2. build E (Ir_binary IR_ADD (node_ir (nodes s2 lhs)) (Some i)) s2
                          (\<lambda>v s3. returns (set_ir expr (Some v) s3)))
                        else returns (set_ir expr (node_ir (nodes s1 lhs)) s1))
                       (\<lambda>s4. Some (Inr (Inl (), s4)))
                   else Some (Inr (Inr (node_ir (nodes s1 lhs)), s1)))
             else
               then_do (ERR ''LHS of subscript operator has invalid kind'' s)
                 (\<lambda>s1. Some (Inr (Inl (), s1))))
            (\<lambda>(outcome, s5).
               case outcome of
                 Inl _ \<Rightarrow> returns s5
               | Inr None \<Rightarrow> aborts NullDereference
               | Inr (Some subs_lhs0) \<Rightarrow>
                  then_do
                    (if type_is_pointer E (ir_type E (builder s5) subs_lhs0)
                        \<and> type_is_array E (pointer_to E (ir_type E (builder s5) subs_lhs0)) then
                       build E (Ir_copy (Some subs_lhs0)) s5
                       (\<lambda>c s6. command E
                          (Ir_set_type c
                             (ast_make_type_pointer E
                                (array_of E (pointer_to E (ir_type E (builder s6) c))))) s6
                       (\<lambda>s7. command E (Ir_insert c) s7 (\<lambda>s8. Some (Inr (c, s8)))))
                     else Some (Inr (subs_lhs0, s5)))
                    (\<lambda>(subs_lhs, s9).
                       if node_kind (nodes s9 rhs) = NODE_LITERAL
                          \<and> literal_type (nodes s9 rhs) = TK_NUMBER
                          \<and> literal_integer (nodes s9 rhs) = 0 then
                         returns (set_ir expr (Some subs_lhs) s9)
                       else
                         then_do (rec_expr rhs s9)
                         (\<lambda>s10.
                            then_do
                              (if type_is_array E (node_type (nodes s10 lhs)) then
                                 build E (Ir_immediate (t_integer E)
                                            (type_sizeof E (array_of E (node_type (nodes s10 lhs))))) s10
                                 (\<lambda>i s11. build E (Ir_binary IR_MUL (node_ir (nodes s11 rhs)) (Some i)) s11
                                 (\<lambda>m s12. Some (Inr (Some m, s12))))
                               else if type_is_pointer E (node_type (nodes s10 lhs)) then
                                 build E (Ir_immediate (t_integer E)
                                            (type_sizeof E (pointer_to E (node_type (nodes s10 lhs))))) s10
                                 (\<lambda>i s11. build E (Ir_binary IR_MUL (node_ir (nodes s11 rhs)) (Some i)) s11
                                 (\<lambda>m s12. Some (Inr (Some m, s12))))
                               else Some (Inr (None, s10)))
                              (\<lambda>(scaled_rhs, s13).
                                 build E (Ir_binary IR_ADD (Some subs_lhs) scaled_rhs) s13
                                   (\<lambda>v s14. returns (set_ir expr (Some v) s14)))))))
     else
       then_do (rec_expr lhs s)
       (\<lambda>s1. then_do (rec_expr rhs s1)
       (\<lambda>s2. case binary_kind (binary_op (nodes s2 expr)) of
                None \<Rightarrow> aborts AssertionFailed
              | Some k \<Rightarrow>
                 build E (Ir_binary k (node_ir (nodes s2 lhs)) (node_ir (nodes s2 rhs))) s2
                   (\<lambda>v s3. returns (set_ir expr (Some v) s3)))))"

definition expr_unary ::
  "'b env \<Rightarrow> 'b codegen_fn \<Rightarrow> 'b codegen_fn \<Rightarrow> node_ptr \<Rightarrow> 'b cg_state \<Rightarrow> 'b run" where
  "expr_unary E rec_expr rec_lvalue expr s =
    (if unary_op (nodes s expr) = TK_AMPERSAND \<and> \<not> unary_postfix (nodes s expr) then
       (if literal_type (nodes s expr) = TK_STRING then aborts AssertionFailed
        else
          then_do (rec_lvalue (unary_value (nodes s expr)) s)
            (\<lambda>s1. returns (set_ir expr (address (nodes s1 (unary_value (nodes s1 expr)))) s1)))
     else
       then_do (rec_expr (unary_value (nodes s expr)) s)
         (\<lambda>s1. let value = unary_value (nodes s1 expr) in
            if \<not> unary_postfix (nodes s1 expr) then
              (if unary_op (nodes s1 expr) = TK_AT then
                 (if type_is_pointer E (node_type (nodes s1 value))
                     \<and> type_is_function E (pointer_to E (node_type (nodes s1 value))) then
                    returns (set_ir expr (node_ir (nodes s1 value)) s1)
                  else build E (Ir_load (node_ir (nodes s1 value))) s1
                         (\<lambda>v s2. returns (set_ir expr (Some v) s2)))
               else if unary_op (nodes s1 expr) = TK_TILDE then
                 build E (Ir_not (node_ir (nodes s1 value))) s1
                   (\<lambda>v s2. returns (set_ir expr (Some v) s2))
               else aborts AssertionFailed)
            else aborts AssertionFailed))"

definition expr_literal ::
  "'b env \<Rightarrow> 'b codegen_fn \<Rightarrow> 'b codegen_fn \<Rightarrow> node_ptr \<Rightarrow> 'b cg_state \<Rightarrow> 'b run" where
  "expr_literal E rec_expr rec_lvalue expr s =
    (if literal_type (nodes s expr) = TK_NUMBER then
       build E (Ir_immediate (node_type (nodes s expr)) (literal_integer (nodes s expr))) s
         (\<lambda>v s1. returns (set_ir expr (Some v) s1))
     else if literal_type (nodes s expr) = TK_STRING then
       build E (Ir_create_static expr (node_type (nodes s expr))
                 (''__str_lit'' @ digits (string_literal_count s)))
         (s\<lparr>string_literal_count := Suc (string_literal_count s)\<rparr>)
       (\<lambda>v s1. let s2 = set_ir expr (Some v) s1 in
          build E (Ir_instruction_lit_string (literal_string_index (nodes s2 expr))) s2
          (\<lambda>i s3. command E (Ir_set_static_init (node_ir (nodes s3 expr)) i) s3 returns))
     else if literal_type (nodes s expr) = TK_LBRACK then
       build E (Ir_stack_allocate (node_type (nodes s expr))) s
       (\<lambda>a s1. let s2 = set_ir expr (Some a) s1 in
          build E (Ir_copy (node_ir (nodes s2 expr))) s2
          (\<lambda>element s3. command E
             (Ir_set_type element (ast_make_type_pointer E (array_of E (node_type (nodes s3 expr))))) s3
          (\<lambda>s4. command E (Ir_insert element) s4
          (\<lambda>s5. then_do (codegen_compound E rec_expr expr (literal_compound (nodes s5 expr)) 0 element s5)
          (\<lambda>s6. build E (Ir_load (node_ir (nodes s6 expr))) s6
          (\<lambda>v s7. returns (set_ir expr (Some v) s7)))))))
     else ERR ''Emitting literals of this type is not supported'' s)"

definition expr_for ::
  "'b env \<Rightarrow> 'b codegen_fn \<Rightarrow> 'b codegen_fn \<Rightarrow> node_ptr \<Rightarrow> 'b cg_state \<Rightarrow> 'b run" where
  "expr_for E rec_expr rec_lvalue expr s =
    ir_block_create_in E s
     (\<lambda>cond_block s1. ir_block_create_in E s1
     (\<lambda>body_block s2. ir_block_create_in E s2
     (\<lambda>join_block s3. then_do (rec_expr (for_init (nodes s3 expr)) s3)
     (\<lambda>s4. build E (Ir_branch cond_block) s4
     (\<lambda>_ s5. command E (Ir_block_attach cond_block) s5
     (\<lambda>s6. then_do (rec_expr (for_condition (nodes s6 expr)) s6)
     (\<lambda>s7. build E (Ir_branch_conditional (node_ir (nodes s7 (for_condition (nodes s7 expr))))
                       body_block join_block) s7
     (\<lambda>_ s8. command E (Ir_block_attach body_block) s8
     (\<lambda>s9. then_do (rec_expr (for_body (nodes s9 expr)) s9)
     (\<lambda>s10. then_do (rec_expr (for_iterator (nodes s10 expr)) s10)
     (\<lambda>s11. build E (Ir_branch cond_block) s11
     (\<lambda>_ s12. command E (Ir_block_attach join_block) s12 returns))))))))))))"

text \<open>
  \<open>codegen_expr\<close>: \<open>if (expr->emitted) return; expr->emitted = true;\<close> and the switch.
\<close>

definition codegen_expr_switch ::
  "'b env \<Rightarrow> 'b codegen_fn \<Rightarrow> 'b codegen_fn \<Rightarrow> node_ptr \<Rightarrow> 'b cg_state \<Rightarrow> 'b run" where
  "codegen_expr_switch E rec_expr rec_lvalue expr s =
    (case node_kind (nodes s expr) of
         NODE_FUNCTION \<Rightarrow> expr_function E rec_expr rec_lvalue expr s
       | NODE_ROOT \<Rightarrow> expr_root E rec_expr rec_lvalue expr s
       | NODE_DECLARATION \<Rightarrow> rec_lvalue expr s
       | NODE_IF \<Rightarrow> expr_if E rec_expr rec_lvalue expr s
       | NODE_WHILE \<Rightarrow> expr_while E rec_expr rec_lvalue expr s
       | NODE_FOR \<Rightarrow> expr_for E rec_expr rec_lvalue expr s
       | NODE_BLOCK \<Rightarrow> expr_block E rec_expr rec_lvalue expr s
       | NODE_CALL \<Rightarrow> expr_call E rec_expr rec_lvalue expr s
       | NODE_CAST \<Rightarrow> expr_cast E rec_expr rec_lvalue expr s
       | NODE_BINARY \<Rightarrow> expr_binary E rec_expr rec_lvalue expr s
       | NODE_UNARY \<Rightarrow> expr_unary E rec_expr rec_lvalue expr s
       | NODE_LITERAL \<Rightarrow> expr_literal E rec_expr rec_lvalue expr s
       | NODE_VARIABLE_REFERENCE \<Rightarrow> expr_variable_reference E rec_expr rec_lvalue expr s
       | NODE_MEMBER_ACCESS \<Rightarrow> expr_member_access E rec_expr rec_lvalue expr s
       | NODE_STRUCTURE_DECLARATION \<Rightarrow> returns s
       | NODE_FUNCTION_REFERENCE \<Rightarrow> aborts Unreachable
       | NODE_other \<Rightarrow> aborts AssertionFailed)"

definition codegen_expr_body ::
  "'b env \<Rightarrow> 'b codegen_fn \<Rightarrow> 'b codegen_fn \<Rightarrow> node_ptr \<Rightarrow> 'b cg_state \<Rightarrow> 'b run" where
  "codegen_expr_body E rec_expr rec_lvalue expr s =
    (if emitted (nodes s expr) then returns s
     else codegen_expr_switch E rec_expr rec_lvalue expr (set_emitted expr s))"

text \<open>
  The two functions with \<open>n\<close> units of fuel: with none left the call does not return,
  otherwise the body runs and its recursive calls have one unit less.
\<close>

primrec codegen :: "'b env \<Rightarrow> nat \<Rightarrow> 'b codegen_fn \<times> 'b codegen_fn" where
  "codegen E 0 = ((\<lambda>_ _. None), (\<lambda>_ _. None))"
| "codegen E (Suc n) =
    (codegen_expr_body E (fst (codegen E n)) (snd (codegen E n)),
     codegen_lvalue_body E (fst (codegen E n)) (snd (codegen E n)))"

definition codegen_expr :: "'b env \<Rightarrow> nat \<Rightarrow> 'b codegen_fn" where
  "codegen_expr E n = fst (codegen E n)"

definition codegen_lvalue :: "'b env \<Rightarrow> nat \<Rightarrow> 'b codegen_fn" where
  "codegen_lvalue E n = snd (codegen E n)"

section \<open>What a call of \<open>codegen_expr\<close> leaves alone\<close>

text \<open>
  \<open>preserves x s s'\<close>: every node that is marked emitted in \<open>s\<close> is still marked in \<open>s'\<close>
  and has the same \<open>ir\<close>, the node \<open>x\<close> (the one being emitted, if any) excepted for its
  \<open>ir\<close>. \<open>calls_preserve\<close> says it of every returning call of a function; \<open>post\<close> and
  \<open>postp\<close> say it of the state a computation returns, alone or paired with a value.
\<close>

definition preserves :: "node_ptr option \<Rightarrow> 'b cg_state \<Rightarrow> 'b cg_state \<Rightarrow> bool" where
  "preserves x s s' =
    (\<forall>y. emitted (nodes s y) \<longrightarrow>
       emitted (nodes s' y) \<and> (Some y \<noteq> x \<longrightarrow> node_ir (nodes s' y) = node_ir (nodes s y)))"

definition calls_preserve :: "'b codegen_fn \<Rightarrow> bool" where
  "calls_preserve rec = (\<forall>z s s'. rec z s = Some (Inr s') \<longrightarrow> preserves None s s')"

definition post :: "node_ptr option \<Rightarrow> 'b cg_state \<Rightarrow> 'b run \<Rightarrow> bool" where
  "post x s0 m = (\<forall>s. m = Some (Inr s) \<longrightarrow> preserves x s0 s)"

definition postp ::
  "node_ptr option \<Rightarrow> 'b cg_state \<Rightarrow> (error + 'a \<times> 'b cg_state) option \<Rightarrow> bool" where
  "postp x s0 m = (\<forall>v s. m = Some (Inr (v, s)) \<longrightarrow> preserves x s0 s)"

text \<open>
  \<open>later E s t\<close>: the state \<open>t\<close> is reached from \<open>s\<close> by what \<open>codegen.c\<close> does to nodes and
  to the builder: calls of \<open>codegen_expr\<close> and \<open>codegen_lvalue\<close> that return, assignments to
  the \<open>address\<close> of a node (as \<open>codegen_function\<close> does for parameters), and use of the
  builder.
\<close>

inductive later :: "'b env \<Rightarrow> 'b cg_state \<Rightarrow> 'b cg_state \<Rightarrow> bool"
  for E :: "'b env" and s :: "'b cg_state" where
  now: "later E s s"
| expr: "later E s t \<Longrightarrow> codegen_expr E n x t = Some (Inr u) \<Longrightarrow> later E s u"
| lvalue: "later E s t \<Longrightarrow> codegen_lvalue E n x t = Some (Inr u) \<Longrightarrow> later E s u"
| address: "later E s t \<Longrightarrow> later E s (set_address l v t)"
| builder: "later E s t \<Longrightarrow> later E s (t\<lparr>builder := b\<rparr>)"


section \<open>Example modules\<close>

definition mk :: "IRKind \<Rightarrow> block_ptr \<Rightarrow> IRInstruction" where
  "mk k b = calloc_IRInstruction\<lparr>kind := k, parent_block := Some b\<rparr>"

definition fn0 :: IRFunction where
  "fn0 = \<lparr>name = [], blocks = [], blocks_last = None, parameters = [], is_extern = False,
          attr_forceinline = False\<rparr>"

definition empty_state :: ir_state where
  "empty_state =
    \<lparr>inst_at = (\<lambda>_. calloc_IRInstruction), block_at = (\<lambda>_. calloc_IRBlock),
     func_at = (\<lambda>_. fn0), next_inst = 0, next_block = 0, ctx_functions = [],
     diagnostics = []\<rparr>"

definition block_of :: "inst_ptr list \<Rightarrow> func_ptr \<Rightarrow> IRBlock" where
  "block_of is f =
    \<lparr>instructions = is, instructions_last = (if is = [] then None else Some (last is)),
     block_function = Some f, block_id = 0\<rparr>"

definition ictx_of :: "int \<Rightarrow> bool \<Rightarrow> InlineContext" where
  "ictx_of thr mf = \<lparr>history = [], not_inlinable = [], threshold = thr, may_fail = mf\<rparr>"

definition res0 :: inline_result where
  "res0 = \<lparr>changed = False, failed = False\<rparr>"

text \<open>
  \<open>f() { return 42 }\<close> and \<open>g() { %c = call f; return %c }\<close>: instructions 0 and 1 are
  \<open>f\<close>, 2 and 3 are \<open>g\<close>.
\<close>

definition single_return :: ir_state where
  "single_return = empty_state\<lparr>
     inst_at := (inst_at empty_state)
       (0 := (mk IR_IMMEDIATE 0)\<lparr>imm := 42, users := [1]\<rparr>,
        1 := (mk IR_RETURN 0)\<lparr>operand := Some 0\<rparr>,
        2 := (mk IR_CALL 1)\<lparr>call_callee_function := Some 0, users := [3]\<rparr>,
        3 := (mk IR_RETURN 1)\<lparr>operand := Some 2\<rparr>),
     block_at := (block_at empty_state) (0 := block_of [0, 1] 0, 1 := block_of [2, 3] 1),
     func_at := (func_at empty_state)
       (0 := fn0\<lparr>name := ''f'', blocks := [0], blocks_last := Some 0\<rparr>,
        1 := fn0\<lparr>name := ''g'', blocks := [1], blocks_last := Some 1\<rparr>),
     next_inst := 4, next_block := 2, ctx_functions := [0, 1]\<rparr>"

text \<open>
  \<open>f(x) { if x then return 1 else return 2 }\<close> in the blocks 0, 1 and 2, and
  \<open>g() { %c = call f(0); return %c }\<close> in block 3: the call is instruction 7.
\<close>

definition multi_return :: ir_state where
  "multi_return = empty_state\<lparr>
     inst_at := (inst_at empty_state)
       (0 := (mk IR_PARAMETER 0)\<lparr>users := [1]\<rparr>,
        1 := (mk IR_BRANCH_CONDITIONAL 0)
               \<lparr>cond_br_condition := Some 0, cond_br_then := Some 1, cond_br_else := Some 2\<rparr>,
        2 := (mk IR_IMMEDIATE 1)\<lparr>imm := 1, users := [3]\<rparr>,
        3 := (mk IR_RETURN 1)\<lparr>operand := Some 2\<rparr>,
        4 := (mk IR_IMMEDIATE 2)\<lparr>imm := 2, users := [5]\<rparr>,
        5 := (mk IR_RETURN 2)\<lparr>operand := Some 4\<rparr>,
        6 := (mk IR_IMMEDIATE 3)\<lparr>imm := 0, users := [7]\<rparr>,
        7 := (mk IR_CALL 3)\<lparr>call_callee_function := Some 0, call_arguments := [6], users := [8]\<rparr>,
        8 := (mk IR_RETURN 3)\<lparr>operand := Some 7\<rparr>),
     block_at := (block_at empty_state)
       (0 := block_of [0, 1] 0, 1 := block_of [2, 3] 0, 2 := block_of [4, 5] 0,
        3 := block_of [6, 7, 8] 1),
     func_at := (func_at empty_state)
       (0 := fn0\<lparr>name := ''f'', blocks := [0, 1, 2], blocks_last := Some 2, parameters := [0]\<rparr>,
        1 := fn0\<lparr>name := ''g'', blocks := [3], blocks_last := Some 3\<rparr>),
     next_inst := 9, next_block := 4, ctx_functions := [0, 1]\<rparr>"

text \<open>
  \<open>f() { return }\<close> and \<open>g() { tail call f(); return }\<close>: \<open>f\<close> returns nothing, so the
  operand of its return is null, as \<open>ir_return(ctx, NULL)\<close> of \<open>codegen_function\<close> leaves it.
\<close>

definition void_tail_call :: ir_state where
  "void_tail_call = empty_state\<lparr>
     inst_at := (inst_at empty_state)
       (0 := mk IR_RETURN 0,
        1 := (mk IR_CALL 1)\<lparr>call_callee_function := Some 0, call_tail_call := True\<rparr>,
        2 := mk IR_RETURN 1),
     block_at := (block_at empty_state) (0 := block_of [0] 0, 1 := block_of [1, 2] 1),
     func_at := (func_at empty_state)
       (0 := fn0\<lparr>name := ''f'', blocks := [0], blocks_last := Some 0\<rparr>,
        1 := fn0\<lparr>name := ''g'', blocks := [1], blocks_last := Some 1\<rparr>),
     next_inst := 3, next_block := 2, ctx_functions := [0, 1]\<rparr>"

text \<open>
  \<open>f() { %c = tail call f(); return %c }\<close>, with \<open>f\<close> marked \<open>forceinline\<close> or not.
\<close>

definition self_recursive :: "bool \<Rightarrow> ir_state" where
  "self_recursive force = empty_state\<lparr>
     inst_at := (inst_at empty_state)
       (0 := (mk IR_CALL 0)\<lparr>call_callee_function := Some 0, call_tail_call := True, users := [1]\<rparr>,
        1 := (mk IR_RETURN 0)\<lparr>operand := Some 0\<rparr>),
     block_at := (block_at empty_state) (0 := block_of [0, 1] 0),
     func_at := (func_at empty_state)
       (0 := fn0\<lparr>name := ''f'', blocks := [0], blocks_last := Some 0, attr_forceinline := force\<rparr>),
     next_inst := 2, next_block := 1, ctx_functions := [0]\<rparr>"

text \<open>\<open>f() { call g(); return }\<close> and \<open>g() { call f(); return }\<close>.\<close>

definition mutual_recursion :: ir_state where
  "mutual_recursion = empty_state\<lparr>
     inst_at := (inst_at empty_state)
       (0 := (mk IR_CALL 0)\<lparr>call_callee_function := Some 1\<rparr>,
        1 := mk IR_RETURN 0,
        2 := (mk IR_CALL 1)\<lparr>call_callee_function := Some 0\<rparr>,
        3 := mk IR_RETURN 1),
     block_at := (block_at empty_state) (0 := block_of [0, 1] 0, 1 := block_of [2, 3] 1),
     func_at := (func_at empty_state)
       (0 := fn0\<lparr>name := ''f'', blocks := [0], blocks_last := Some 0\<rparr>,
        1 := fn0\<lparr>name := ''g'', blocks := [1], blocks_last := Some 1\<rparr>),
     next_inst := 4, next_block := 2, ctx_functions := [0, 1]\<rparr>"

text \<open>
  The state in which \<open>g\<close> holds instruction 6, a copy of a \<open>call f()\<close> that came into \<open>g\<close>
  when the root call 2 to \<open>f\<close> was inlined, with the history that records it.
\<close>

definition inline_cycle :: ir_state where
  "inline_cycle = mutual_recursion\<lparr>
     inst_at := (inst_at mutual_recursion) (6 := (mk IR_CALL 1)\<lparr>call_callee_function := Some 0\<rparr>),
     block_at := (block_at mutual_recursion) (1 := block_of [6, 3] 1),
     next_inst := 8\<rparr>"

definition inline_cycle_ictx :: InlineContext where
  "inline_cycle_ictx =
    \<lparr>history = [\<lparr>h_call = 2, h_callee = Some 0, inlined_via = None\<rparr>,
                \<lparr>h_call = 6, h_callee = Some 0, inlined_via = Some 0\<rparr>],
     not_inlinable = [], threshold = 5, may_fail = False\<rparr>"

text \<open>
  \<open>f() { return 42 }\<close>, \<open>g() { %c = call f(); return %c }\<close> and
  \<open>h() { %d = call g(); return %d }\<close>: instructions 0 and 1 are \<open>f\<close>, 2 and 3 are \<open>g\<close>, 4 and
  5 are \<open>h\<close>.
\<close>

definition nested_calls :: ir_state where
  "nested_calls = empty_state\<lparr>
     inst_at := (inst_at empty_state)
       (0 := (mk IR_IMMEDIATE 0)\<lparr>imm := 42, users := [1]\<rparr>,
        1 := (mk IR_RETURN 0)\<lparr>operand := Some 0\<rparr>,
        2 := (mk IR_CALL 1)\<lparr>call_callee_function := Some 0, users := [3]\<rparr>,
        3 := (mk IR_RETURN 1)\<lparr>operand := Some 2\<rparr>,
        4 := (mk IR_CALL 2)\<lparr>call_callee_function := Some 1, users := [5]\<rparr>,
        5 := (mk IR_RETURN 2)\<lparr>operand := Some 4\<rparr>),
     block_at := (block_at empty_state)
       (0 := block_of [0, 1] 0, 1 := block_of [2, 3] 1, 2 := block_of [4, 5] 2),
     func_at := (func_at empty_state)
       (0 := fn0\<lparr>name := ''f'', blocks := [0], blocks_last := Some 0\<rparr>,
        1 := fn0\<lparr>name := ''g'', blocks := [1], blocks_last := Some 1\<rparr>,
        2 := fn0\<lparr>name := ''h'', blocks := [2], blocks_last := Some 2\<rparr>),
     next_inst := 6, next_block := 3, ctx_functions := [0, 1, 2]\<rparr>"

subsection \<open>An expression with a shared operand\<close>

text \<open>
  A builder that numbers the instructions it creates, and the expression \<open>7 + 7\<close> whose two
  operands are one and the same literal node: node 0 is the literal, node 1 the sum.
  \<open>shared_operand_emitted\<close> is the state after \<open>codegen_expr\<close> on node 1: two instructions,
  the literal emitted once.
\<close>

definition no_node :: Node where
  "no_node =
    \<lparr>node_kind = NODE_other, emitted = False, node_ir = None, address = None, node_type = 0,
     function_ir = None, root_children = [], declaration_init = None,
     declaration_static = False, declaration_name = [], member_access_struct = 0,
     member_byte_offset = 0, member_type = 0, var_node = 0, if_condition = 0, if_then = 0,
     if_else = None, while_condition = 0, while_body = 0, for_init = 0, for_condition = 0,
     for_iterator = 0, for_body = 0, block_children = [], call_callee = 0, call_args = [],
     cast_value = 0, binary_op = TK_other, binary_lhs = 0, binary_rhs = 0, unary_op = TK_other,
     unary_postfix = False, unary_value = 0, literal_type = TK_other, literal_integer = 0,
     literal_string_index = 0, literal_compound = []\<rparr>"

definition counting_builder :: "nat env" where
  "counting_builder =
    \<lparr>ir_build = (\<lambda>c b. Inr (b, Suc b)), ir_do = (\<lambda>c b. Inr b),
     ir_new_block = (\<lambda>b. (b, Suc b)), ir_is_closed = (\<lambda>b. False), ctx_block = (\<lambda>b. b),
     ir_kind = (\<lambda>b i. IR_IMMEDIATE), ir_type = (\<lambda>b i. 0), type_is_void = (\<lambda>t. False),
     type_is_array = (\<lambda>t. False), type_is_pointer = (\<lambda>t. False),
     type_is_function = (\<lambda>t. False), type_is_signed_primitive = (\<lambda>t. True),
     type_sizeof = (\<lambda>t. 8), pointer_to = (\<lambda>t. t), array_of = (\<lambda>t. t),
     ast_make_type_pointer = (\<lambda>t. t), t_integer = 0, is_lvalue = (\<lambda>n. False),
     string_size = (\<lambda>i. 0)\<rparr>"

definition seven :: Node where
  "seven = no_node\<lparr>node_kind := NODE_LITERAL, literal_type := TK_NUMBER, literal_integer := 7\<rparr>"

definition seven_plus_seven :: Node where
  "seven_plus_seven =
    no_node\<lparr>node_kind := NODE_BINARY, binary_op := TK_PLUS, binary_lhs := 0, binary_rhs := 0\<rparr>"

definition shared_operand :: "nat cg_state" where
  "shared_operand =
    \<lparr>nodes = (\<lambda>p. if p = 0 then seven else if p = 1 then seven_plus_seven else no_node),
     builder = 0, string_literal_count = 0, cg_diagnostics = []\<rparr>"

definition shared_operand_emitted :: "nat cg_state" where
  "shared_operand_emitted =
    \<lparr>nodes = (\<lambda>p. if p = 0 then seven\<lparr>emitted := True, node_ir := Some 0\<rparr>
                   else if p = 1 then seven_plus_seven\<lparr>emitted := True, node_ir := Some 1\<rparr>
                   else no_node),
     builder = 2, string_literal_count = 0, cg_diagnostics = []\<rparr>"

section \<open>Properties of \<open>Type::Equal\<close>\<close>

lemma Equal_refl: "Equal a a = Some True"
  by simp

lemma Equal_members_iff:
  "length ms = length ns \<Longrightarrow>
   (Equal_members ms ns = Some True) = (\<forall>i<length ms. Equal (ms ! i) (ns ! i) = Some True)"
proof (induction ms arbitrary: ns)
  case Nil
  then show ?case by simp
next
  case (Cons m ms)
  then obtain n ns' where ns: "ns = n # ns'" by (cases ns) auto
  with Cons.prems have len: "length ms = length ns'" by simp
  show ?case unfolding ns
    using Cons.IH[OF len]
    by (auto simp del: Equal.simps simp: All_less_Suc2 split: option.splits bool.splits)
qed

text \<open>
  Claim C9. Two anonymous struct types are equal iff they have the same number of
  members and the member types are equal position by position; a struct type with a
  declaration is equal to a type only when both are the same instance; two integer types
  are equal iff bit width and signedness agree; two pointer types are equal iff their
  element types are; two (checked) array types are equal iff their dimensions agree and
  their element types are equal. The hypotheses \<open>p = q \<longrightarrow> \<dots>\<close> say that one address holds
  one object.
\<close>

theorem Type_Equal_spec:
  "((p = q \<longrightarrow> ms = ns) \<longrightarrow>
      (Equal (StructType p None ms) (StructType q None ns) = Some True) =
      (length ms = length ns \<and> (\<forall>i<length ms. Equal (ms ! i) (ns ! i) = Some True)))
   \<and> Equal (StructType p (Some d) ms) b = Some (p = addr b)
   \<and> Equal a (StructType q (Some d) ns) = Some (addr a = q)
   \<and> ((p = q \<longrightarrow> w = w' \<and> s = s') \<longrightarrow>
      Equal (IntegerType p w s) (IntegerType q w' s') = Some (w = w' \<and> s = s'))
   \<and> ((p = q \<longrightarrow> e = e') \<longrightarrow>
      (Equal (PointerType p e) (PointerType q e') = Some True) = (Equal e e' = Some True))
   \<and> ((p = q \<longrightarrow> e = e' \<and> n = n') \<longrightarrow>
      (Equal (ArrayType p e True n) (ArrayType q e' True n') = Some True) =
      (n = n' \<and> Equal e e' = Some True))"
proof (intro conjI impI)
  assume "p = q \<longrightarrow> ms = ns"
  then show "(Equal (StructType p None ms) (StructType q None ns) = Some True) =
      (length ms = length ns \<and> (\<forall>i<length ms. Equal (ms ! i) (ns ! i) = Some True))"
    using Equal_members_iff[of ms ns]
    by (cases "p = q")
       (auto simp del: Equal.simps simp: Equal.simps[of "StructType p None ms"] Equal_refl)
next
  show "Equal (StructType p (Some d) ms) b = Some (p = addr b)"
    by (cases b) auto
next
  show "Equal a (StructType q (Some d) ns) = Some (addr a = q)"
    by (cases a) auto
next
  assume "p = q \<longrightarrow> w = w' \<and> s = s'"
  then show "Equal (IntegerType p w s) (IntegerType q w' s') = Some (w = w' \<and> s = s')"
    by auto
next
  assume "p = q \<longrightarrow> e = e'"
  then show "(Equal (PointerType p e) (PointerType q e') = Some True) = (Equal e e' = Some True)"
    by (cases "p = q")
       (auto simp del: Equal.simps simp: Equal.simps[of "PointerType p e"] Equal_refl)
next
  assume "p = q \<longrightarrow> e = e' \<and> n = n'"
  then show "(Equal (ArrayType p e True n) (ArrayType q e' True n') = Some True) =
      (n = n' \<and> Equal e e' = Some True)"
    by (cases "p = q")
       (auto simp del: Equal.simps simp: Equal.simps[of "ArrayType p e True n"] Equal_refl)
qed

theorem Type_Equal_spec_witness:
  "Equal (StructType 1 None [IntegerType 3 32 True, PointerType 5 (BuiltinType 7 K_Bool)])
         (StructType 2 None [IntegerType 4 32 True, PointerType 6 (BuiltinType 7 K_Bool)])
     = Some True
   \<and> Equal (StructType 1 (Some 9) [IntegerType 3 32 True])
           (StructType 2 (Some 9) [IntegerType 3 32 True]) = Some False
   \<and> Equal (IntegerType 3 32 True) (IntegerType 4 32 False) = Some False
   \<and> Equal (ArrayType 10 (IntegerType 3 32 True) True 4)
           (ArrayType 11 (IntegerType 4 32 True) True 4) = Some True"
  using Type_Equal_spec [where p = 1 and q = 2
      and ms = "[IntegerType 3 32 True, PointerType 5 (BuiltinType 7 K_Bool)]"
      and ns = "[IntegerType 4 32 True, PointerType 6 (BuiltinType 7 K_Bool)]"
      and d = 9 and b = "StructType 2 (Some 9) [IntegerType 3 32 True]"
      and a = "IntegerType 3 32 True" and w = 32 and w' = 32 and s = True and s' = True
      and e = "BuiltinType 7 K_Bool" and e' = "BuiltinType 7 K_Bool" and n = 4 and n' = 4]
  by simp

section \<open>Evaluating the model on concrete modules\<close>

lemma alloc_insts_numeral:
  "alloc_insts (numeral k) s =
    (let (p, s1) = alloc_inst s; (ps, s2) = alloc_insts (pred_numeral k) s1 in (p # ps, s2))"
  by (simp add: numeral_eq_Suc)

lemma alloc_insts_1: "alloc_insts 1 s = (let (p, s1) = alloc_inst s in ([p], s1))"
  by (simp add: One_nat_def[symmetric] del: One_nat_def) (simp add: Let_def split: prod.splits)

lemma alloc_blocks_numeral:
  "alloc_blocks (numeral k) fn s =
    (let (b, s1) = alloc_block s;
         s2 = upd_block b (\<lambda>bl. bl\<lparr>block_function := fn\<rparr>) s1;
         (bs, s3) = alloc_blocks (pred_numeral k) fn s2
     in (b # bs, s3))"
  by (simp add: numeral_eq_Suc)

lemma alloc_blocks_1:
  "alloc_blocks 1 fn s =
    (let (b, s1) = alloc_block s; s2 = upd_block b (\<lambda>bl. bl\<lparr>block_function := fn\<rparr>) s1
     in ([b], s2))"
  by (simp add: Let_def split: prod.splits)

lemmas ir_defs =
  mk_def fn0_def empty_state_def block_of_def ictx_of_def res0_def
  calloc_IRInstruction_def calloc_IRBlock_def upd_inst_def upd_block_def upd_func_def
  alloc_inst_def alloc_block_def function_instructions_def mark_used_def ir_remove_use_def
  opt_list_def operands_def ir_unmark_usees_def subst_ptr_def replace_operand_def
  ir_replace_uses_def unlink_def ir_remove_def ir_force_insert_into_block_def
  ir_insert_into_block_def ir_block_create_def issue_diagnostic_def tail_call_possible_def
  opt_try_convert_to_tail_call_def instruction_count_def

lemmas inline_defs =
  find_history_def MAP_def MAP_BLOCK_def copy_fields_def copy_unary_def copy_binary_def
  copy_call_def create_return_block_def return_to_branch_def copy_return_def copy_data_def
  copy_instruction_def connect_blocks_def inline_body_def infinite_loop_message_def
  ir_inline_call_def alloc_insts_numeral alloc_insts_1 alloc_blocks_numeral alloc_blocks_1 Let_def

lemmas pass_defs =
  must_inline_def consider_instruction_def inline_calls_in_function_def run_inliner_def

section \<open>Self-recursive calls\<close>

text \<open>
  Claim C3, as amended. A direct call of the processed function to itself is never handed
  to \<open>ir_inline_call\<close>: the loop always continues with the next instruction. A call already
  marked \<open>tail_call\<close> is left alone. A call that is not a tail call and must be inlined
  (\<open>forceinline\<close> or threshold 0) is converted to a tail call when that is possible, and is
  otherwise rejected: \<open>failed\<close> is set, the call is recorded as not inlinable, and a
  diagnostic is issued unless the pass may fail. A call that is not a tail call and only
  passes the threshold test is skipped.
\<close>

theorem self_recursion:
  assumes "kind (inst_at s inst) = IR_CALL"
    and "\<not> call_is_indirect (inst_at s inst)"
    and "call_callee_function (inst_at s inst) = Some f"
    and "\<not> is_extern (func_at s f)"
    and "inst \<notin> set (not_inlinable ictx)"
  shows "consider_instruction f inst (s, ictx, res) =
    Some (Inr (Continue,
      (if call_tail_call (inst_at s inst) then (s, ictx, res)
       else if attr_forceinline (func_at s f) \<or> threshold ictx = 0 then
         (if tail_call_possible s inst
          then (upd_inst inst (\<lambda>x. x\<lparr>call_tail_call := True\<rparr>) s, ictx, res)
          else ((if may_fail ictx then s
                 else issue_diagnostic ''Sorry, could not inline non-tail-recursive call'' s),
                ictx\<lparr>not_inlinable := not_inlinable ictx @ [inst]\<rparr>,
                res\<lparr>failed := True\<rparr>))
       else (s, ictx, res))))"
  using assms unfolding consider_instruction_def must_inline_def opt_try_convert_to_tail_call_def
  by (auto split: option.splits sum.splits bool.splits prod.splits)

theorem self_recursion_witness:
  "consider_instruction 0 0 (self_recursive False, ictx_of 0 False, res0) =
     Some (Inr (Continue, (self_recursive False, ictx_of 0 False, res0)))"
  using self_recursion [of "self_recursive False" 0 0 "ictx_of 0 False" res0]
  by (simp add: self_recursive_def ir_defs)

text \<open>
  The claim C3 as stated says that a self-recursive call marked \<open>tail_call\<close> is inlined.
  With threshold 0 the pass leaves such a call, and the whole module, as it is.
\<close>

theorem self_recursion_counterexample:
  "kind (inst_at (self_recursive False) 0) = IR_CALL
   \<and> call_callee_function (inst_at (self_recursive False) 0) = Some 0
   \<and> call_tail_call (inst_at (self_recursive False) 0)
   \<and> run_inliner (self_recursive False) 0 False = Some (Inr (res0, self_recursive False))"
  apply (subst run_inliner_def)
  apply (simp add: self_recursive_def ir_defs pass_defs del: consider_instruction_def)
  apply (subst inline_again.simps)
  apply (simp add: ir_defs pass_defs)
  done

section \<open>Inline cycles\<close>

lemma walk_history_finds:
  "history_ancestor h p q \<Longrightarrow> h_callee (h ! q) = Some callee
   \<Longrightarrow> walk_history h callee p = Some (Inr True)"
proof (induction rule: history_ancestor.induct)
  case (here p)
  then show ?case by (subst walk_history.simps) simp
next
  case (via p p' q)
  then show ?case by (subst walk_history.simps) simp
qed

lemma ir_inline_call_not_inlinable:
  "ir_inline_call s ictx call = Some (Inr (b, s', ictx'))
   \<Longrightarrow> not_inlinable ictx' = not_inlinable ictx"
  unfolding ir_inline_call_def
  by (auto split: option.splits if_splits sum.splits bool.splits prod.splits)

lemma consider_instruction_not_inlinable:
  "consider_instruction f i (s1, ictx1, res1) = Some (Inr (c, (s2, ictx2, res2)))
   \<Longrightarrow> set (not_inlinable ictx1) \<subseteq> set (not_inlinable ictx2)"
  unfolding consider_instruction_def opt_try_convert_to_tail_call_def
  by (auto split: option.splits if_splits sum.splits bool.splits prod.splits
           dest: ir_inline_call_not_inlinable)

text \<open>
  Claim C2. Let the call \<open>C\<close> to the (non-empty) callee \<open>F\<close> have the history entry \<open>e\<close>, and
  let the ancestry of \<open>e\<close>, from its parent \<open>p\<close> on, contain an entry \<open>q\<close> whose callee is
  \<open>F\<close>. Then \<open>ir_inline_call\<close> returns false; the memory is unchanged but for the
  diagnostic "Infinite loop detected", which is issued exactly when the pass may not
  fail; the history is unchanged. The pass then sets \<open>failed\<close> and records \<open>C\<close> in the
  not-inlinable set. From then on \<open>C\<close> is skipped in whatever state it is met, since no
  step of the pass removes an instruction from the not-inlinable set.
\<close>

theorem inline_cycle_refused:
  assumes callee: "call_callee_function (inst_at s call) = Some callee"
    and nonempty: "instruction_count s callee True \<noteq> 0"
    and entry: "find_history (history ictx) call = Some e"
    and parent: "inlined_via (history ictx ! e) = Some p"
    and anc: "history_ancestor (history ictx) p q"
    and same: "h_callee (history ictx ! q) = Some callee"
    and caller: "parent_block (inst_at s call) = Some b" "block_function (block_at s b) = Some g"
  shows "ir_inline_call s ictx call =
           Some (Inr (False,
             (if may_fail ictx then s
              else s\<lparr>diagnostics := diagnostics s @
                     [''Failed to inline function '' @ name (func_at s callee) @ '' into '' @
                      name (func_at s g) @ '': Infinite loop detected'']\<rparr>),
             ictx))
     \<and> (kind (inst_at s call) = IR_CALL \<and> \<not> call_is_indirect (inst_at s call)
          \<and> \<not> is_extern (func_at s callee) \<and> call \<notin> set (not_inlinable ictx) \<and> callee \<noteq> f
          \<and> (attr_forceinline (func_at s callee) \<or> threshold ictx = 0
               \<or> instruction_count s callee False \<le> threshold ictx)
        \<longrightarrow> consider_instruction f call (s, ictx, res) =
              Some (Inr (Again,
                ((if may_fail ictx then s
                  else s\<lparr>diagnostics := diagnostics s @
                     [''Failed to inline function '' @ name (func_at s callee) @ '' into '' @
                      name (func_at s g) @ '': Infinite loop detected'']\<rparr>),
                 ictx\<lparr>not_inlinable := not_inlinable ictx @ [call]\<rparr>,
                 res\<lparr>failed := True\<rparr>))))
     \<and> (\<forall>f' s1 ictx1 res1. call \<in> set (not_inlinable ictx1) \<longrightarrow>
            consider_instruction f' call (s1, ictx1, res1) = Some (Inr (Continue, (s1, ictx1, res1)))
            \<or> (call_callee_function (inst_at s1 call) = None
                \<and> consider_instruction f' call (s1, ictx1, res1) = Some (Inl NullDereference)))
     \<and> (\<forall>f' i s1 ictx1 res1 c s2 ictx2 res2.
            consider_instruction f' i (s1, ictx1, res1) = Some (Inr (c, (s2, ictx2, res2)))
            \<longrightarrow> set (not_inlinable ictx1) \<subseteq> set (not_inlinable ictx2))"
proof -
  have walk: "walk_history (history ictx) callee p = Some (Inr True)"
    using walk_history_finds[OF anc same] .
  have refuse: "ir_inline_call s ictx call =
           Some (Inr (False,
             (if may_fail ictx then s
              else s\<lparr>diagnostics := diagnostics s @
                     [''Failed to inline function '' @ name (func_at s callee) @ '' into '' @
                      name (func_at s g) @ '': Infinite loop detected'']\<rparr>),
             ictx))"
    using callee nonempty entry parent walk caller
    by (simp add: ir_inline_call_def issue_diagnostic_def infinite_loop_message_def)
  have step: "kind (inst_at s call) = IR_CALL \<and> \<not> call_is_indirect (inst_at s call)
          \<and> \<not> is_extern (func_at s callee) \<and> call \<notin> set (not_inlinable ictx) \<and> callee \<noteq> f
          \<and> (attr_forceinline (func_at s callee) \<or> threshold ictx = 0
               \<or> instruction_count s callee False \<le> threshold ictx)
        \<longrightarrow> consider_instruction f call (s, ictx, res) =
              Some (Inr (Again,
                ((if may_fail ictx then s
                  else s\<lparr>diagnostics := diagnostics s @
                     [''Failed to inline function '' @ name (func_at s callee) @ '' into '' @
                      name (func_at s g) @ '': Infinite loop detected'']\<rparr>),
                 ictx\<lparr>not_inlinable := not_inlinable ictx @ [call]\<rparr>,
                 res\<lparr>failed := True\<rparr>)))"
    using callee refuse by (auto simp: consider_instruction_def must_inline_def)
  have skip: "\<forall>f' s1 ictx1 res1. call \<in> set (not_inlinable ictx1) \<longrightarrow>
            consider_instruction f' call (s1, ictx1, res1) = Some (Inr (Continue, (s1, ictx1, res1)))
            \<or> (call_callee_function (inst_at s1 call) = None
                \<and> consider_instruction f' call (s1, ictx1, res1) = Some (Inl NullDereference))"
    by (auto simp: consider_instruction_def split: option.splits)
  have mono: "\<forall>f' i s1 ictx1 res1 c s2 ictx2 res2.
            consider_instruction f' i (s1, ictx1, res1) = Some (Inr (c, (s2, ictx2, res2)))
            \<longrightarrow> set (not_inlinable ictx1) \<subseteq> set (not_inlinable ictx2)"
    using consider_instruction_not_inlinable by blast
  show ?thesis using refuse step skip mono by blast
qed

theorem inline_cycle_refused_witness:
  "ir_inline_call inline_cycle inline_cycle_ictx 6 =
     Some (Inr (False,
       inline_cycle\<lparr>diagnostics :=
         [''Failed to inline function f into g: Infinite loop detected'']\<rparr>,
       inline_cycle_ictx))"
proof -
  have anc: "history_ancestor (history inline_cycle_ictx) 0 0"
    by (rule history_ancestor.here) (simp add: inline_cycle_ictx_def)
  have e: "find_history (history inline_cycle_ictx) 6 = Some 1"
    by (simp add: inline_cycle_ictx_def find_history_def upt_rec)
  show ?thesis
    using inline_cycle_refused [of inline_cycle 6 0 inline_cycle_ictx 1 0 0 1 1, OF _ _ e _ anc]
    by (simp add: inline_cycle_def inline_cycle_ictx_def mutual_recursion_def ir_defs)
qed

section \<open>Return values of an inlined callee\<close>

text \<open>
  Claim C4, on the module \<open>multi_return\<close>. The call 7 to \<open>f\<close> is inlined into block 3 of
  \<open>g\<close>; the blocks 1 and 2 of \<open>f\<close> are copied to the new blocks 4 and 5, where the two
  returns have become the branches 11 and 13. The PHI 15 of the return block has one
  argument for each return, with the copies 10 and 12 of the returned values, but the
  blocks it names are 1 and 2, the blocks of the callee \<open>f\<close>, not their copies 4 and 5.
\<close>

theorem return_phi_names_callee_blocks:
  "(case ir_inline_call multi_return (ictx_of 0 True) 7 of
      Some (Inr (True, s', ictx')) \<Rightarrow>
        kind (inst_at s' 15) = IR_PHI
        \<and> phi_args (inst_at s' 15) =
            [\<lparr>phi_value = Some 10, phi_block = Some 1\<rparr>,
             \<lparr>phi_value = Some 12, phi_block = Some 2\<rparr>]
        \<and> blocks (func_at s' 0) = [0, 1, 2]
        \<and> kind (inst_at s' 11) = IR_BRANCH \<and> parent_block (inst_at s' 11) = Some 4
        \<and> kind (inst_at s' 13) = IR_BRANCH \<and> parent_block (inst_at s' 13) = Some 5
    | _ \<Rightarrow> False)"
  by (simp add: multi_return_def ir_defs inline_defs)

section \<open>Inlining a tail call\<close>

text \<open>
  Claim C6, on the module \<open>void_tail_call\<close>. Inlining the tail call 1 to \<open>f\<close> reaches the
  return of \<open>f\<close>, which has no operand; the branch for tail calls maps the operand
  without testing it, unlike the branch for other calls, and dereferences the null
  pointer.
\<close>

theorem tail_call_void_return_null:
  "ir_inline_call void_tail_call (ictx_of 0 True) 1 = Some (Inl NullDereference)"
  by (simp add: void_tail_call_def ir_defs inline_defs)

section \<open>A callee with a single return\<close>

text \<open>
  Claim C5, on the module \<open>nested_calls\<close>. The call 2 to \<open>f\<close> is inlined into \<open>g\<close> as the claim
  says: the instructions 6 and 7 are allocated for the copies, the return of \<open>f\<close> is
  dropped, no block is created, and the return 3 of \<open>g\<close> takes the copy 6 of the value. But
  the step that ties the instructions after the call to the inlined ones leaves
  \<open>instructions.last\<close> of the block where it was: the block of \<open>g\<close> holds 6 and 3, and its
  \<open>last\<close> is 6. When the call 4 to \<open>g\<close> is then inlined into \<open>h\<close>, the callee \<open>g\<close> has exactly
  one return, the instruction 3 at the end of its last block, and the call is not a tail
  call; yet the test \<open>inst == block->instructions.last\<close> fails for the return. So the
  return block 3 is created with the PHI 10, the return is copied as the branch 9 to that
  block, and the use of the call in 5 is replaced by the PHI, not by the copy 8 of the
  returned value. The pass with threshold 0 makes these two steps on the module.
\<close>

theorem lone_return_not_dropped:
  "(case ir_inline_call nested_calls (ictx_of 0 True) 2 of
      Some (Inr (True, s1, ictx1)) \<Rightarrow>
        next_inst s1 = next_inst nested_calls + 2 \<and> next_block s1 = next_block nested_calls
        \<and> instructions (block_at s1 1) = [6, 3] \<and> operand (inst_at s1 3) = Some 6
        \<and> blocks (func_at s1 1) = [1] \<and> blocks_last (func_at s1 1) = Some 1
        \<and> kind (inst_at s1 6) = IR_IMMEDIATE \<and> kind (inst_at s1 3) = IR_RETURN
        \<and> instructions_last (block_at s1 1) = Some 6
        \<and> kind (inst_at s1 4) = IR_CALL \<and> \<not> call_tail_call (inst_at s1 4)
        \<and> call_callee_function (inst_at s1 4) = Some 1
        \<and> (case ir_inline_call s1 ictx1 4 of
              Some (Inr (True, s2, ictx2)) \<Rightarrow>
                next_inst s2 = next_inst s1 + 3 \<and> next_block s2 = next_block s1 + 1
                \<and> instructions (block_at s2 2) = [8, 9]
                \<and> kind (inst_at s2 8) = IR_IMMEDIATE
                \<and> kind (inst_at s2 9) = IR_BRANCH \<and> destination_block (inst_at s2 9) = Some 3
                \<and> instructions (block_at s2 3) = [10, 5]
                \<and> kind (inst_at s2 10) = IR_PHI
                \<and> phi_args (inst_at s2 10) = [\<lparr>phi_value = Some 8, phi_block = Some 1\<rparr>]
                \<and> kind (inst_at s2 5) = IR_RETURN \<and> operand (inst_at s2 5) = Some 10
            | _ \<Rightarrow> False)
    | _ \<Rightarrow> False)
   \<and> (case run_inliner nested_calls 0 True of
        Some (Inr (res, s2)) \<Rightarrow>
          changed res \<and> \<not> failed res \<and> next_block s2 = next_block nested_calls + 1
          \<and> instructions (block_at s2 1) = [6, 3]
          \<and> instructions (block_at s2 2) = [8, 9] \<and> kind (inst_at s2 9) = IR_BRANCH
          \<and> instructions (block_at s2 3) = [10, 5] \<and> kind (inst_at s2 10) = IR_PHI
          \<and> operand (inst_at s2 5) = Some 10
      | _ \<Rightarrow> False)"
  by (simp add: nested_calls_def ir_defs inline_defs pass_defs inline_again.simps
        walk_history.simps)

section \<open>Running the pass twice\<close>


lemma same_but_tail_calls_refl: "same_but_tail_calls s s"
proof -
  have "\<And>i. inst_at s i = (inst_at s i)\<lparr>call_tail_call := call_tail_call (inst_at s i)\<rparr>"
    by simp
  then show ?thesis unfolding same_but_tail_calls_def by blast
qed

lemma same_but_tail_calls_fields:
  assumes "same_but_tail_calls s s'"
  shows "kind (inst_at s' i) = kind (inst_at s i)"
    and "call_is_indirect (inst_at s' i) = call_is_indirect (inst_at s i)"
    and "call_callee_function (inst_at s' i) = call_callee_function (inst_at s i)"
    and "func_at s' = func_at s" and "block_at s' = block_at s"
proof -
  from assms obtain t where eq: "inst_at s' i = (inst_at s i)\<lparr>call_tail_call := t\<rparr>"
    unfolding same_but_tail_calls_def by blast
  show "kind (inst_at s' i) = kind (inst_at s i)" by (simp add: eq)
  show "call_is_indirect (inst_at s' i) = call_is_indirect (inst_at s i)" by (simp add: eq)
  show "call_callee_function (inst_at s' i) = call_callee_function (inst_at s i)" by (simp add: eq)
  show "func_at s' = func_at s" "block_at s' = block_at s"
    using assms by (simp_all add: same_but_tail_calls_def)
qed

lemma same_but_tail_calls_count:
  assumes "same_but_tail_calls s s'"
  shows "instruction_count s' f b = instruction_count s f b"
  using same_but_tail_calls_fields[OF assms]
  by (simp add: instruction_count_def function_instructions_def)

lemma same_but_tail_calls_candidate:
  assumes "same_but_tail_calls s s'"
  shows "inline_candidate s' thr f i = inline_candidate s thr f i"
  using same_but_tail_calls_fields[OF assms] same_but_tail_calls_count[OF assms]
  by (simp add: inline_candidate_def split: option.splits)

lemma same_but_tail_calls_set_tail:
  assumes "same_but_tail_calls s s'"
  shows "same_but_tail_calls s (upd_inst i (\<lambda>x. x\<lparr>call_tail_call := True\<rparr>) s')"
proof -
  have "\<exists>t. inst_at (upd_inst i (\<lambda>x. x\<lparr>call_tail_call := True\<rparr>) s') j
             = (inst_at s j)\<lparr>call_tail_call := t\<rparr>" for j
  proof -
    from assms obtain t where eq: "inst_at s' j = (inst_at s j)\<lparr>call_tail_call := t\<rparr>"
      unfolding same_but_tail_calls_def by blast
    show ?thesis
    proof (cases "j = i")
      case True
      have "inst_at (upd_inst i (\<lambda>x. x\<lparr>call_tail_call := True\<rparr>) s') j
              = (inst_at s j)\<lparr>call_tail_call := True\<rparr>"
        using True eq by (simp add: upd_inst_def)
      then show ?thesis by blast
    next
      case False
      have "inst_at (upd_inst i (\<lambda>x. x\<lparr>call_tail_call := True\<rparr>) s') j
              = (inst_at s j)\<lparr>call_tail_call := t\<rparr>"
        using False eq by (simp add: upd_inst_def)
      then show ?thesis by blast
    qed
  qed
  moreover have "func_at (upd_inst i (\<lambda>x. x\<lparr>call_tail_call := True\<rparr>) s') = func_at s"
    "block_at (upd_inst i (\<lambda>x. x\<lparr>call_tail_call := True\<rparr>) s') = block_at s"
    "ctx_functions (upd_inst i (\<lambda>x. x\<lparr>call_tail_call := True\<rparr>) s') = ctx_functions s"
    "next_inst (upd_inst i (\<lambda>x. x\<lparr>call_tail_call := True\<rparr>) s') = next_inst s"
    "next_block (upd_inst i (\<lambda>x. x\<lparr>call_tail_call := True\<rparr>) s') = next_block s"
    using assms by (simp_all add: same_but_tail_calls_def upd_inst_def)
  ultimately show ?thesis unfolding same_but_tail_calls_def by blast
qed

lemma same_but_tail_calls_diag:
  assumes "same_but_tail_calls s s'"
  shows "same_but_tail_calls s (issue_diagnostic m s')"
  using assms by (simp add: same_but_tail_calls_def issue_diagnostic_def)

lemma consider_instruction_quiet:
  assumes q: "quiet s thr st" and nc: "\<not> inline_candidate s thr f i"
  shows "\<exists>st'. consider_instruction f i st = Some (Inr (Continue, st')) \<and> quiet s thr st'"
proof -
  obtain s' ictx res where st: "st = (s', ictx, res)" by (cases st) auto
  from q st have same: "same_but_tail_calls s s'" and thr: "threshold ictx = thr"
    and ch: "\<not> changed res" by (simp_all add: quiet_def)
  from nc same_but_tail_calls_candidate[OF same] have nc': "\<not> inline_candidate s' thr f i" by simp
  have q0: "quiet s thr (s', ictx, res)" using q st by simp
  have q1: "quiet s thr (upd_inst i (\<lambda>x. x\<lparr>call_tail_call := True\<rparr>) s', ictx, res)"
    using same_but_tail_calls_set_tail[OF same, of i] thr ch by (simp add: quiet_def)
  have q2: "quiet s thr (s', ictx\<lparr>not_inlinable := not_inlinable ictx @ [i]\<rparr>, res\<lparr>failed := True\<rparr>)"
    using same thr ch by (simp add: quiet_def)
  have q3: "quiet s thr (issue_diagnostic m s', ictx\<lparr>not_inlinable := not_inlinable ictx @ [i]\<rparr>,
                          res\<lparr>failed := True\<rparr>)" for m
    using same_but_tail_calls_diag[OF same] thr ch by (simp add: quiet_def)
  show ?thesis
  proof (cases "kind (inst_at s' i) = IR_CALL \<and> \<not> call_is_indirect (inst_at s' i)")
    case False
    then show ?thesis using q0 unfolding st consider_instruction_def by auto
  next
    case True
    with nc' obtain callee where callee: "call_callee_function (inst_at s' i) = Some callee"
      and no: "is_extern (func_at s' callee) \<or> callee = f
               \<or> \<not> (attr_forceinline (func_at s' callee) \<or> threshold ictx = 0
                      \<or> instruction_count s' callee False \<le> threshold ictx)"
      unfolding inline_candidate_def thr by (auto split: option.splits)
    show ?thesis
      using True callee no q0 q1 q2 q3
      unfolding st consider_instruction_def must_inline_def opt_try_convert_to_tail_call_def
      by (simp split: if_splits) blast
  qed
qed

lemma scan_instructions_quiet:
  assumes "quiet s thr st" and "\<forall>i \<in> set is. \<not> inline_candidate s thr f i"
  shows "\<exists>st'. scan_instructions f is st = Some (Inr (Continue, st')) \<and> quiet s thr st'"
  using assms
proof (induction "is" arbitrary: st)
  case Nil
  then show ?case by simp
next
  case (Cons i "is")
  from consider_instruction_quiet[OF Cons.prems(1), of f i] Cons.prems(2)
  obtain st1 where c: "consider_instruction f i st = Some (Inr (Continue, st1))"
    and q1: "quiet s thr st1" by auto
  from Cons.IH[OF q1] Cons.prems(2)
  obtain st2 where "scan_instructions f is st1 = Some (Inr (Continue, st2))" "quiet s thr st2"
    by auto
  with c show ?case by simp
qed

lemma scan_blocks_quiet:
  assumes "quiet s thr st"
    and "\<forall>b \<in> set bs. \<forall>i \<in> set (instructions (block_at s b)). \<not> inline_candidate s thr f i"
  shows "\<exists>st'. scan_blocks f bs st = Some (Inr (None, st')) \<and> quiet s thr st'"
  using assms
proof (induction bs arbitrary: st)
  case Nil
  then show ?case by simp
next
  case (Cons b bs)
  from Cons.prems(1) have blk: "block_at (fst st) = block_at s"
    by (auto simp: quiet_def same_but_tail_calls_def)
  from scan_instructions_quiet[OF Cons.prems(1), of "instructions (block_at s b)" f] Cons.prems(2)
  obtain st1 where c: "scan_instructions f (instructions (block_at s b)) st = Some (Inr (Continue, st1))"
    and q1: "quiet s thr st1" by auto
  from Cons.IH[OF q1] Cons.prems(2)
  obtain st2 where "scan_blocks f bs st1 = Some (Inr (None, st2))" "quiet s thr st2"
    by auto
  with c blk show ?case by simp
qed

lemma inline_calls_in_function_quiet:
  assumes same: "same_but_tail_calls s s'" and thr: "threshold ictx = thr"
    and nc: "\<forall>b \<in> set (blocks (func_at s f)). \<forall>i \<in> set (instructions (block_at s b)).
               \<not> inline_candidate s thr f i"
  shows "\<exists>s'' ictx' r. inline_calls_in_function s' ictx f = Some (Inr (r, s'', ictx'))
           \<and> same_but_tail_calls s s'' \<and> threshold ictx' = thr \<and> \<not> changed r"
proof (cases "blocks (func_at s' f)")
  case Nil
  then show ?thesis using same thr by (simp add: inline_calls_in_function_def)
next
  case (Cons block rest)
  let ?st = "(s', ictx\<lparr>history := []\<rparr>, \<lparr>changed = False, failed = False\<rparr>)"
  have q: "quiet s thr ?st" using same thr by (simp add: quiet_def)
  have fn: "func_at s' = func_at s" using same by (simp add: same_but_tail_calls_def)
  have sub: "set (dropWhile (\<lambda>b. b \<noteq> block) (blocks (func_at (fst ?st) f)))
               \<subseteq> set (blocks (func_at s f))"
    using fn by (auto dest: set_dropWhileD)
  from scan_blocks_quiet[OF q, of "dropWhile (\<lambda>b. b \<noteq> block) (blocks (func_at (fst ?st) f))" f]
    nc sub
  obtain st' where sc: "scan_blocks f (dropWhile (\<lambda>b. b \<noteq> block) (blocks (func_at (fst ?st) f))) ?st
                         = Some (Inr (None, st'))" and q': "quiet s thr st'"
    by blast
  have "inline_again f block ?st = Some (Inr st')"
    by (subst inline_again.simps) (simp only: sc option.case sum.case prod.case)
  with Cons q' show ?thesis
    by (cases st') (auto simp: inline_calls_in_function_def quiet_def)
qed

lemma inline_functions_quiet:
  assumes "quiet s thr st"
    and "\<forall>f \<in> set fs. \<forall>b \<in> set (blocks (func_at s f)). \<forall>i \<in> set (instructions (block_at s b)).
               \<not> inline_candidate s thr f i"
  shows "\<exists>st'. inline_functions fs st = Some (Inr st') \<and> quiet s thr st'"
  using assms
proof (induction fs arbitrary: st)
  case Nil
  then show ?case by simp
next
  case (Cons f fs)
  obtain s' ictx res where st: "st = (s', ictx, res)" by (cases st) auto
  from Cons.prems(1) st have same: "same_but_tail_calls s s'" and thr: "threshold ictx = thr"
    and ch: "\<not> changed res" by (simp_all add: quiet_def)
  from inline_calls_in_function_quiet[OF same thr, of f] Cons.prems(2)
  obtain s'' ictx' r where c: "inline_calls_in_function s' ictx f = Some (Inr (r, s'', ictx'))"
    and same': "same_but_tail_calls s s''" and thr': "threshold ictx' = thr" and ch': "\<not> changed r"
    by auto
  let ?st1 = "(s'', ictx', \<lparr>changed = (changed r \<or> changed res), failed = (failed r \<or> failed res)\<rparr>)"
  have q1: "quiet s thr ?st1" using same' thr' ch ch' by (simp add: quiet_def)
  from Cons.IH[OF q1] Cons.prems(2)
  obtain st2 where "inline_functions fs ?st1 = Some (Inr st2)" "quiet s thr st2" by auto
  with c st show ?case by simp
qed

text \<open>
  Claim C8, as amended. When no function of the module holds a direct call to another,
  non-extern function that passes the inlining test for the threshold \<open>t\<close> (the module is
  settled), a run of the inliner with threshold \<open>t\<close> inlines nothing and reports
  \<open>changed = false\<close>: functions and blocks are as before, and instructions differ at most
  in the \<open>tail_call\<close> mark of self-recursive calls.
\<close>

theorem settled_module_unchanged:
  assumes "settled s thr"
  shows "\<exists>res s'. run_inliner s thr mf = Some (Inr (res, s')) \<and> \<not> changed res
           \<and> same_but_tail_calls s s'"
proof -
  let ?st = "(s, \<lparr>history = [], not_inlinable = [], threshold = thr, may_fail = mf\<rparr>,
              \<lparr>changed = False, failed = False\<rparr>)"
  have q: "quiet s thr ?st" by (simp add: quiet_def same_but_tail_calls_refl)
  from inline_functions_quiet[OF q, of "ctx_functions s"] assms
  obtain st' where r: "inline_functions (ctx_functions s) ?st = Some (Inr st')"
    and q': "quiet s thr st'" by (auto simp: settled_def)
  then show ?thesis
    by (cases st') (auto simp: run_inliner_def quiet_def)
qed

theorem settled_module_unchanged_witness:
  "\<exists>res s'. run_inliner single_return 1 True = Some (Inr (res, s')) \<and> \<not> changed res
      \<and> same_but_tail_calls single_return s'"
  using settled_module_unchanged [of single_return 1 True]
  by (simp add: settled_def inline_candidate_def single_return_def ir_defs)

text \<open>
  The claim C8 as stated fails on two mutually recursive functions with threshold 5: the
  first run inlines \<open>g\<close> into \<open>f\<close> and \<open>f\<close> into \<open>g\<close> and refuses the call to \<open>f\<close> that this
  brings into \<open>g\<close>; the second run, whose history and not-inlinable set are new, inlines
  that call and reports \<open>changed = true\<close>.
\<close>

theorem inliner_not_idempotent:
  "(case run_inliner mutual_recursion 5 True of
      Some (Inr (r1, s1)) \<Rightarrow>
        (case run_inliner s1 5 True of Some (Inr (r2, s2)) \<Rightarrow> changed r2 | _ \<Rightarrow> False)
    | _ \<Rightarrow> False)"
  by (simp add: mutual_recursion_def ir_defs inline_defs pass_defs inline_again.simps
        walk_history.simps)

section \<open>The decision to inline\<close>








section \<open>Runs of the pass that do not return\<close>

text \<open>
  Claim C7, on the module \<open>void_tail_call\<close>. The function \<open>g\<close> holds the direct call 1 to
  \<open>f\<close>, which is not extern. With threshold 0 the pass hands the call to \<open>ir_inline_call\<close>,
  which dereferences the null operand of the return of \<open>f\<close>. The run is aborted there: the
  call has been neither inlined, nor skipped, nor placed in the not-inlinable set, and
  \<open>run_inliner\<close> does not return, whether it may fail or not.
\<close>

theorem run_inliner_aborts:
  "ctx_functions void_tail_call = [0, 1]
   \<and> blocks (func_at void_tail_call 1) = [1] \<and> instructions (block_at void_tail_call 1) = [1, 2]
   \<and> kind (inst_at void_tail_call 1) = IR_CALL \<and> \<not> call_is_indirect (inst_at void_tail_call 1)
   \<and> call_callee_function (inst_at void_tail_call 1) = Some 0
   \<and> \<not> is_extern (func_at void_tail_call 0)
   \<and> run_inliner void_tail_call 0 True = Some (Inl NullDereference)
   \<and> run_inliner void_tail_call 0 False = Some (Inl NullDereference)
   \<and> opt_inline void_tail_call 0 = Some (Inl NullDereference)"
  by (simp add: void_tail_call_def ir_defs inline_defs pass_defs inline_again.simps
        walk_history.simps opt_inline_def)

section \<open>Emission is done once for each node\<close>

subsection \<open>Rules for \<open>preserves\<close>\<close>

lemma preserves_refl: "preserves x s s"
  by (simp add: preserves_def)

lemma preserves_trans:
  "preserves x s0 s \<Longrightarrow> preserves None s s' \<Longrightarrow> preserves x s0 s'"
  by (simp add: preserves_def)

lemma preserves_builder: "preserves x s0 s \<Longrightarrow> preserves x s0 (s\<lparr>builder := b\<rparr>)"
  by (simp add: preserves_def)

lemma preserves_count: "preserves x s0 s \<Longrightarrow> preserves x s0 (s\<lparr>string_literal_count := c\<rparr>)"
  by (simp add: preserves_def)

lemma preserves_diag: "preserves x s0 s \<Longrightarrow> preserves x s0 (s\<lparr>cg_diagnostics := d\<rparr>)"
  by (simp add: preserves_def)

lemma preserves_set_address: "preserves x s0 s \<Longrightarrow> preserves x s0 (set_address l v s)"
  by (simp add: preserves_def set_address_def)

lemma preserves_set_ir: "preserves (Some e) s0 s \<Longrightarrow> preserves (Some e) s0 (set_ir e v s)"
  by (simp add: preserves_def set_ir_def)

lemma preserves_set_emitted: "preserves x s (set_emitted e s)"
  by (simp add: preserves_def set_emitted_def)

lemmas preserves_rules =
  preserves_builder preserves_count preserves_diag preserves_set_address preserves_set_ir

lemma post_returns: "preserves x s0 s \<Longrightarrow> post x s0 (returns s)"
  by (simp add: post_def returns_def)

lemma post_aborts: "post x s0 (aborts e)"
  by (simp add: post_def aborts_def)

lemma post_Inl: "post x s0 (Some (Inl e))"
  by (simp add: post_def)

lemma postp_Inl: "postp x s0 (Some (Inl e))"
  by (simp add: postp_def)

lemma postp_Inr: "preserves x s0 s \<Longrightarrow> postp x s0 (Some (Inr (v, s)))"
  by (simp add: postp_def)

lemma post_ERR: "preserves x s0 s \<Longrightarrow> post x s0 (ERR msg s)"
  by (simp add: ERR_def post_returns preserves_diag)

lemma post_rec:
  "calls_preserve rec \<Longrightarrow> preserves x s0 s \<Longrightarrow> post x s0 (rec z s)"
  unfolding post_def calls_preserve_def by (blast intro: preserves_trans)

lemma post_then:
  "post x s0 m \<Longrightarrow> (\<And>s1. preserves x s0 s1 \<Longrightarrow> post x s0 (k s1)) \<Longrightarrow> post x s0 (then_do m k)"
  by (auto simp add: post_def then_do_def split: option.splits sum.splits)

lemma post_thenp:
  "postp x s0 m \<Longrightarrow> (\<And>v s1. preserves x s0 s1 \<Longrightarrow> post x s0 (k (v, s1)))
   \<Longrightarrow> post x s0 (then_do m k)"
  by (auto simp add: post_def postp_def then_do_def split: option.splits sum.splits)

lemma postp_then:
  "post x s0 m \<Longrightarrow> (\<And>s1. preserves x s0 s1 \<Longrightarrow> postp x s0 (k s1)) \<Longrightarrow> postp x s0 (then_do m k)"
  by (auto simp add: post_def postp_def then_do_def split: option.splits sum.splits)

lemma postp_thenp:
  "postp x s0 m \<Longrightarrow> (\<And>v s1. preserves x s0 s1 \<Longrightarrow> postp x s0 (k (v, s1)))
   \<Longrightarrow> postp x s0 (then_do m k)"
  by (auto simp add: postp_def then_do_def split: option.splits sum.splits)

lemma post_build:
  assumes "preserves x s0 s" and "\<And>v s1. preserves x s0 s1 \<Longrightarrow> post x s0 (k v s1)"
  shows "post x s0 (build E c s k)"
proof (cases "ir_build E c (builder s)")
  case (Inl e)
  then show ?thesis by (simp add: post_def build_def)
next
  case (Inr vb)
  obtain v b where vb: "vb = (v, b)" by (cases vb)
  have "post x s0 (k v (s\<lparr>builder := b\<rparr>))"
    using assms by (simp add: preserves_builder)
  then show ?thesis using Inr vb by (simp add: build_def)
qed

lemma postp_build:
  assumes "preserves x s0 s" and "\<And>v s1. preserves x s0 s1 \<Longrightarrow> postp x s0 (k v s1)"
  shows "postp x s0 (build E c s k)"
proof (cases "ir_build E c (builder s)")
  case (Inl e)
  then show ?thesis by (simp add: postp_def build_def)
next
  case (Inr vb)
  obtain v b where vb: "vb = (v, b)" by (cases vb)
  have "postp x s0 (k v (s\<lparr>builder := b\<rparr>))"
    using assms by (simp add: preserves_builder)
  then show ?thesis using Inr vb by (simp add: build_def)
qed

lemma post_command:
  assumes "preserves x s0 s" and "\<And>s1. preserves x s0 s1 \<Longrightarrow> post x s0 (k s1)"
  shows "post x s0 (command E c s k)"
proof (cases "ir_do E c (builder s)")
  case (Inl e)
  then show ?thesis by (simp add: post_def command_def)
next
  case (Inr b)
  have "post x s0 (k (s\<lparr>builder := b\<rparr>))"
    using assms by (simp add: preserves_builder)
  then show ?thesis using Inr by (simp add: command_def)
qed

lemma postp_command:
  assumes "preserves x s0 s" and "\<And>s1. preserves x s0 s1 \<Longrightarrow> postp x s0 (k s1)"
  shows "postp x s0 (command E c s k)"
proof (cases "ir_do E c (builder s)")
  case (Inl e)
  then show ?thesis by (simp add: postp_def command_def)
next
  case (Inr b)
  have "postp x s0 (k (s\<lparr>builder := b\<rparr>))"
    using assms by (simp add: preserves_builder)
  then show ?thesis using Inr by (simp add: command_def)
qed

lemma post_block_create:
  assumes "preserves x s0 s" and "\<And>b s1. preserves x s0 s1 \<Longrightarrow> post x s0 (k b s1)"
  shows "post x s0 (ir_block_create_in E s k)"
proof -
  obtain b bs where new: "ir_new_block E (builder s) = (b, bs)"
    by (cases "ir_new_block E (builder s)")
  have "post x s0 (k b (s\<lparr>builder := bs\<rparr>))"
    using assms by (simp add: preserves_builder)
  then show ?thesis using new by (simp add: ir_block_create_in_def)
qed

lemma post_if: "(c \<Longrightarrow> post x s0 a) \<Longrightarrow> (\<not> c \<Longrightarrow> post x s0 b) \<Longrightarrow> post x s0 (if c then a else b)"
  by simp

lemma postp_if:
  "(c \<Longrightarrow> postp x s0 a) \<Longrightarrow> (\<not> c \<Longrightarrow> postp x s0 b) \<Longrightarrow> postp x s0 (if c then a else b)"
  by simp

lemma post_case_option:
  "(v = None \<Longrightarrow> post x s0 a) \<Longrightarrow> (\<And>y. v = Some y \<Longrightarrow> post x s0 (b y))
   \<Longrightarrow> post x s0 (case v of None \<Rightarrow> a | Some y \<Rightarrow> b y)"
  by (simp split: option.splits)

lemma postp_case_option:
  "(v = None \<Longrightarrow> postp x s0 a) \<Longrightarrow> (\<And>y. v = Some y \<Longrightarrow> postp x s0 (b y))
   \<Longrightarrow> postp x s0 (case v of None \<Rightarrow> a | Some y \<Rightarrow> b y)"
  by (simp split: option.splits)

lemma post_case_sum:
  "(\<And>y. post x s0 (a y)) \<Longrightarrow> (\<And>y. post x s0 (b y))
   \<Longrightarrow> post x s0 (case v of Inl y \<Rightarrow> a y | Inr y \<Rightarrow> b y)"
  by (simp split: sum.splits)

lemma post_case_prod: "post x s0 (f a b) \<Longrightarrow> post x s0 (case_prod f (a, b))"
  by simp

lemma postp_case_prod: "postp x s0 (f a b) \<Longrightarrow> postp x s0 (case_prod f (a, b))"
  by simp

lemmas post_rules =
  post_returns post_aborts post_Inl postp_Inl postp_Inr post_ERR
  post_then post_thenp postp_then postp_thenp post_build postp_build post_command postp_command
  post_block_create post_if postp_if post_case_option postp_case_option post_case_sum
  post_case_prod postp_case_prod preserves_rules

lemma codegen_children_post:
  assumes "calls_preserve rec_expr"
  shows "preserves x s0 s \<Longrightarrow> postp x s0 (codegen_children rec_expr cs l s)"
proof (induction cs arbitrary: l s)
  case Nil
  then show ?case by (simp add: postp_Inr)
next
  case (Cons c cs)
  note r = post_rec [OF assms]
  show ?case
    unfolding codegen_children.simps
    by (rule post_rules r Cons | assumption)+
qed

lemma codegen_arguments_post:
  assumes "calls_preserve rec_expr"
  shows "preserves x s0 s \<Longrightarrow> post x s0 (codegen_arguments E rec_expr call as s)"
proof (induction as arbitrary: s)
  case Nil
  then show ?case by (simp add: post_returns)
next
  case (Cons a as)
  note r = post_rec [OF assms]
  show ?case
    unfolding codegen_arguments.simps
    by (rule post_rules r Cons | assumption)+
qed

lemma codegen_compound_post:
  assumes "calls_preserve rec_expr"
  shows "preserves x s0 s \<Longrightarrow> post x s0 (codegen_compound E rec_expr expr ns i el s)"
proof (induction ns arbitrary: i el s)
  case Nil
  then show ?case by (simp add: post_returns)
next
  case (Cons a as)
  note r = post_rec [OF assms]
  show ?case
    unfolding codegen_compound.simps
    by (rule post_rules r Cons | assumption)+
qed

subsection \<open>The cases of the two switches\<close>

lemma lvalue_declaration_post:
  assumes E: "calls_preserve rec_expr" and L: "calls_preserve rec_lvalue"
    and s: "preserves x s0 s"
  shows "post x s0 (lvalue_declaration E rec_expr rec_lvalue lval s)"
proof -
  note r = post_rec [OF E] post_rec [OF L] codegen_children_post [OF E]
    codegen_arguments_post [OF E] codegen_compound_post [OF E]
  show ?thesis
    unfolding lvalue_declaration_def Let_def
    by (rule post_rules r s | assumption)+
qed

lemma lvalue_member_access_post:
  assumes E: "calls_preserve rec_expr" and L: "calls_preserve rec_lvalue"
    and s: "preserves x s0 s"
  shows "post x s0 (lvalue_member_access E rec_expr rec_lvalue lval s)"
proof -
  note r = post_rec [OF E] post_rec [OF L] codegen_children_post [OF E]
    codegen_arguments_post [OF E] codegen_compound_post [OF E]
  show ?thesis
    unfolding lvalue_member_access_def Let_def
    by (rule post_rules r s | assumption)+
qed

lemma lvalue_unary_post:
  assumes E: "calls_preserve rec_expr" and L: "calls_preserve rec_lvalue"
    and s: "preserves x s0 s"
  shows "post x s0 (lvalue_unary E rec_expr rec_lvalue lval s)"
proof -
  note r = post_rec [OF E] post_rec [OF L] codegen_children_post [OF E]
    codegen_arguments_post [OF E] codegen_compound_post [OF E]
  show ?thesis
    unfolding lvalue_unary_def Let_def
    by (rule post_rules r s | assumption)+
qed

lemma lvalue_variable_reference_post:
  assumes E: "calls_preserve rec_expr" and L: "calls_preserve rec_lvalue"
    and s: "preserves x s0 s"
  shows "post x s0 (lvalue_variable_reference E rec_expr rec_lvalue lval s)"
proof -
  note r = post_rec [OF E] post_rec [OF L] codegen_children_post [OF E]
    codegen_arguments_post [OF E] codegen_compound_post [OF E]
  show ?thesis
    unfolding lvalue_variable_reference_def Let_def
    by (rule post_rules r s | assumption)+
qed

lemma expr_function_post:
  assumes E: "calls_preserve rec_expr" and L: "calls_preserve rec_lvalue"
    and s: "preserves (Some e) s0 s"
  shows "post (Some e) s0 (expr_function E rec_expr rec_lvalue e s)"
proof -
  note r = post_rec [OF E] post_rec [OF L] codegen_children_post [OF E]
    codegen_arguments_post [OF E] codegen_compound_post [OF E]
  show ?thesis
    unfolding expr_function_def Let_def
    by (rule post_rules r s | assumption)+
qed

lemma expr_root_post:
  assumes E: "calls_preserve rec_expr" and L: "calls_preserve rec_lvalue"
    and s: "preserves (Some e) s0 s"
  shows "post (Some e) s0 (expr_root E rec_expr rec_lvalue e s)"
proof -
  note r = post_rec [OF E] post_rec [OF L] codegen_children_post [OF E]
    codegen_arguments_post [OF E] codegen_compound_post [OF E]
  show ?thesis
    unfolding expr_root_def Let_def
    by (rule post_rules r s | assumption)+
qed

lemma expr_member_access_post:
  assumes E: "calls_preserve rec_expr" and L: "calls_preserve rec_lvalue"
    and s: "preserves (Some e) s0 s"
  shows "post (Some e) s0 (expr_member_access E rec_expr rec_lvalue e s)"
proof -
  note r = post_rec [OF E] post_rec [OF L] codegen_children_post [OF E]
    codegen_arguments_post [OF E] codegen_compound_post [OF E]
  show ?thesis
    unfolding expr_member_access_def Let_def
    by (rule post_rules r s | assumption)+
qed

lemma expr_variable_reference_post:
  assumes E: "calls_preserve rec_expr" and L: "calls_preserve rec_lvalue"
    and s: "preserves (Some e) s0 s"
  shows "post (Some e) s0 (expr_variable_reference E rec_expr rec_lvalue e s)"
proof -
  note r = post_rec [OF E] post_rec [OF L] codegen_children_post [OF E]
    codegen_arguments_post [OF E] codegen_compound_post [OF E]
  show ?thesis
    unfolding expr_variable_reference_def Let_def
    by (rule post_rules r s | assumption)+
qed

lemma expr_if_post:
  assumes E: "calls_preserve rec_expr" and L: "calls_preserve rec_lvalue"
    and s: "preserves (Some e) s0 s"
  shows "post (Some e) s0 (expr_if E rec_expr rec_lvalue e s)"
proof -
  note r = post_rec [OF E] post_rec [OF L] codegen_children_post [OF E]
    codegen_arguments_post [OF E] codegen_compound_post [OF E]
  show ?thesis
    unfolding expr_if_def Let_def
    by (rule post_rules r s | assumption)+
qed

lemma expr_while_post:
  assumes E: "calls_preserve rec_expr" and L: "calls_preserve rec_lvalue"
    and s: "preserves (Some e) s0 s"
  shows "post (Some e) s0 (expr_while E rec_expr rec_lvalue e s)"
proof -
  note r = post_rec [OF E] post_rec [OF L] codegen_children_post [OF E]
    codegen_arguments_post [OF E] codegen_compound_post [OF E]
  show ?thesis
    unfolding expr_while_def Let_def
    by (rule post_rules r s | assumption)+
qed

lemma expr_block_post:
  assumes E: "calls_preserve rec_expr" and L: "calls_preserve rec_lvalue"
    and s: "preserves (Some e) s0 s"
  shows "post (Some e) s0 (expr_block E rec_expr rec_lvalue e s)"
proof -
  note r = post_rec [OF E] post_rec [OF L] codegen_children_post [OF E]
    codegen_arguments_post [OF E] codegen_compound_post [OF E]
  show ?thesis
    unfolding expr_block_def Let_def
    by (rule post_rules r s | assumption)+
qed

lemma expr_call_post:
  assumes E: "calls_preserve rec_expr" and L: "calls_preserve rec_lvalue"
    and s: "preserves (Some e) s0 s"
  shows "post (Some e) s0 (expr_call E rec_expr rec_lvalue e s)"
proof -
  note r = post_rec [OF E] post_rec [OF L] codegen_children_post [OF E]
    codegen_arguments_post [OF E] codegen_compound_post [OF E]
  show ?thesis
    unfolding expr_call_def Let_def
    by (rule post_rules r s | assumption)+
qed

lemma expr_cast_post:
  assumes E: "calls_preserve rec_expr" and L: "calls_preserve rec_lvalue"
    and s: "preserves (Some e) s0 s"
  shows "post (Some e) s0 (expr_cast E rec_expr rec_lvalue e s)"
proof -
  note r = post_rec [OF E] post_rec [OF L] codegen_children_post [OF E]
    codegen_arguments_post [OF E] codegen_compound_post [OF E]
  show ?thesis
    unfolding expr_cast_def Let_def
    by (rule post_rules r s | assumption)+
qed

lemma expr_binary_post:
  assumes E: "calls_preserve rec_expr" and L: "calls_preserve rec_lvalue"
    and s: "preserves (Some e) s0 s"
  shows "post (Some e) s0 (expr_binary E rec_expr rec_lvalue e s)"
proof -
  note r = post_rec [OF E] post_rec [OF L] codegen_children_post [OF E]
    codegen_arguments_post [OF E] codegen_compound_post [OF E]
  show ?thesis
    unfolding expr_binary_def Let_def
    by (rule post_rules r s | assumption)+
qed

lemma expr_unary_post:
  assumes E: "calls_preserve rec_expr" and L: "calls_preserve rec_lvalue"
    and s: "preserves (Some e) s0 s"
  shows "post (Some e) s0 (expr_unary E rec_expr rec_lvalue e s)"
proof -
  note r = post_rec [OF E] post_rec [OF L] codegen_children_post [OF E]
    codegen_arguments_post [OF E] codegen_compound_post [OF E]
  show ?thesis
    unfolding expr_unary_def Let_def
    by (rule post_rules r s | assumption)+
qed

lemma expr_literal_post:
  assumes E: "calls_preserve rec_expr" and L: "calls_preserve rec_lvalue"
    and s: "preserves (Some e) s0 s"
  shows "post (Some e) s0 (expr_literal E rec_expr rec_lvalue e s)"
proof -
  note r = post_rec [OF E] post_rec [OF L] codegen_children_post [OF E]
    codegen_arguments_post [OF E] codegen_compound_post [OF E]
  show ?thesis
    unfolding expr_literal_def Let_def
    by (rule post_rules r s | assumption)+
qed

lemma expr_for_post:
  assumes E: "calls_preserve rec_expr" and L: "calls_preserve rec_lvalue"
    and s: "preserves (Some e) s0 s"
  shows "post (Some e) s0 (expr_for E rec_expr rec_lvalue e s)"
proof -
  note r = post_rec [OF E] post_rec [OF L] codegen_children_post [OF E]
    codegen_arguments_post [OF E] codegen_compound_post [OF E]
  show ?thesis
    unfolding expr_for_def Let_def
    by (rule post_rules r s | assumption)+
qed

subsection \<open>\<open>codegen_expr\<close> and \<open>codegen_lvalue\<close>\<close>

lemma codegen_lvalue_body_post:
  assumes E: "calls_preserve rec_expr" and L: "calls_preserve rec_lvalue"
    and s: "preserves x s0 s"
  shows "post x s0 (codegen_lvalue_body E rec_expr rec_lvalue lval s)"
  unfolding codegen_lvalue_body_def
  by (cases "node_kind (nodes s lval)")
     (simp_all add: post_returns post_aborts s lvalue_declaration_post [OF E L s]
        lvalue_member_access_post [OF E L s] lvalue_unary_post [OF E L s]
        lvalue_variable_reference_post [OF E L s])

lemma codegen_expr_switch_post:
  assumes E: "calls_preserve rec_expr" and L: "calls_preserve rec_lvalue"
    and s: "preserves (Some e) s0 s"
  shows "post (Some e) s0 (codegen_expr_switch E rec_expr rec_lvalue e s)"
  unfolding codegen_expr_switch_def
  by (cases "node_kind (nodes s e)")
     (simp_all add: post_returns post_aborts s post_rec [OF L s]
        expr_function_post [OF E L s] expr_root_post [OF E L s] expr_if_post [OF E L s]
        expr_while_post [OF E L s] expr_for_post [OF E L s] expr_block_post [OF E L s]
        expr_call_post [OF E L s] expr_cast_post [OF E L s] expr_binary_post [OF E L s]
        expr_unary_post [OF E L s] expr_literal_post [OF E L s]
        expr_variable_reference_post [OF E L s] expr_member_access_post [OF E L s])

lemma codegen_expr_body_marks:
  assumes E: "calls_preserve rec_expr" and L: "calls_preserve rec_lvalue"
    and run: "codegen_expr_body E rec_expr rec_lvalue e s = Some (Inr s')"
  shows "emitted (nodes s' e) \<and> preserves None s s'"
proof (cases "emitted (nodes s e)")
  case True
  then have "s' = s" using run by (simp add: codegen_expr_body_def returns_def)
  then show ?thesis using True by (simp add: preserves_refl)
next
  case False
  have "post (Some e) s (codegen_expr_switch E rec_expr rec_lvalue e (set_emitted e s))"
    by (rule codegen_expr_switch_post [OF E L preserves_set_emitted])
  moreover have "codegen_expr_switch E rec_expr rec_lvalue e (set_emitted e s) = Some (Inr s')"
    using run False by (simp add: codegen_expr_body_def)
  ultimately have p: "preserves (Some e) s s'" by (simp add: post_def)
  have "post (Some e) (set_emitted e s)
          (codegen_expr_switch E rec_expr rec_lvalue e (set_emitted e s))"
    by (rule codegen_expr_switch_post [OF E L preserves_refl])
  then have "preserves (Some e) (set_emitted e s) s'"
    using \<open>codegen_expr_switch E rec_expr rec_lvalue e (set_emitted e s) = Some (Inr s')\<close>
    by (simp add: post_def)
  then have "emitted (nodes s' e)" by (simp add: preserves_def set_emitted_def)
  moreover have "preserves None s s'"
    using p False unfolding preserves_def by auto
  ultimately show ?thesis by simp
qed

lemma codegen_preserves:
  "calls_preserve (fst (codegen E n)) \<and> calls_preserve (snd (codegen E n))"
proof (induction n)
  case 0
  show ?case by (simp add: calls_preserve_def)
next
  case (Suc n)
  then have E: "calls_preserve (fst (codegen E n))" and L: "calls_preserve (snd (codegen E n))"
    by simp_all
  have "calls_preserve (codegen_expr_body E (fst (codegen E n)) (snd (codegen E n)))"
    unfolding calls_preserve_def using codegen_expr_body_marks [OF E L] by blast
  moreover have "calls_preserve (codegen_lvalue_body E (fst (codegen E n)) (snd (codegen E n)))"
    unfolding calls_preserve_def
    using codegen_lvalue_body_post [OF E L preserves_refl] by (simp add: post_def)
  ultimately show ?case by simp
qed

lemma codegen_expr_preserves:
  "codegen_expr E n x s = Some (Inr s') \<Longrightarrow> preserves None s s'"
  using codegen_preserves [of E n] by (simp add: calls_preserve_def codegen_expr_def)

lemma codegen_lvalue_preserves:
  "codegen_lvalue E n x s = Some (Inr s') \<Longrightarrow> preserves None s s'"
  using codegen_preserves [of E n] by (simp add: calls_preserve_def codegen_lvalue_def)

lemma codegen_expr_marks:
  assumes "codegen_expr E n e s = Some (Inr s')"
  shows "emitted (nodes s' e)"
proof (cases n)
  case 0
  then show ?thesis using assms by (simp add: codegen_expr_def)
next
  case (Suc k)
  have "calls_preserve (fst (codegen E k))" "calls_preserve (snd (codegen E k))"
    using codegen_preserves [of E k] by simp_all
  then show ?thesis
    using codegen_expr_body_marks [of "fst (codegen E k)" "snd (codegen E k)" E e s s'] assms Suc
    by (simp add: codegen_expr_def)
qed

lemma codegen_expr_emitted:
  "emitted (nodes s e) \<Longrightarrow> codegen_expr E (Suc n) e s = Some (Inr s)"
  by (simp add: codegen_expr_def codegen_expr_body_def returns_def)

lemma later_preserves: "later E s t \<Longrightarrow> preserves None s t"
proof (induction rule: later.induct)
  case now
  show ?case by (rule preserves_refl)
next
  case (expr t n x u)
  then show ?case using codegen_expr_preserves preserves_trans by blast
next
  case (lvalue t n x u)
  then show ?case using codegen_lvalue_preserves preserves_trans by blast
next
  case (address t l v)
  then show ?case by (simp add: preserves_set_address)
next
  case (builder t b)
  then show ?case by (simp add: preserves_builder)
qed

lemmas codegen_defs =
  codegen_expr_def codegen_lvalue_def codegen_expr_body_def codegen_lvalue_body_def
  codegen_expr_switch_def expr_binary_def expr_literal_def returns_def aborts_def then_do_def
  build_def command_def set_ir_def set_address_def set_emitted_def

lemma shared_operand_run:
  "codegen_expr counting_builder (Suc (Suc 0)) 1 shared_operand = Some (Inr shared_operand_emitted)"
  by (simp add: codegen_defs shared_operand_def shared_operand_emitted_def seven_def
      seven_plus_seven_def no_node_def counting_builder_def fun_eq_iff)

text \<open>
  Claim C10. \<open>codegen_expr\<close> on a node that is marked emitted returns at once and changes
  nothing: no instruction is built and no \<open>ir\<close> is written. A call that returns leaves its
  node marked, and the mark and the \<open>ir\<close> of the node survive everything that \<open>codegen.c\<close>
  does later (further calls of \<open>codegen_expr\<close> and \<open>codegen_lvalue\<close> on any node, writes of
  \<open>address\<close>, use of the builder); so every later call for the node returns at once, in a
  state it leaves unchanged, and the \<open>ir\<close> stored by the first call is still there.
\<close>

theorem codegen_expr_idempotent:
  "(emitted (nodes t expr) \<longrightarrow> codegen_expr E (Suc k) expr t = Some (Inr t)) \<and>
   (codegen_expr E n expr s = Some (Inr s1) \<and> later E s1 s2 \<longrightarrow>
      emitted (nodes s1 expr) \<and> codegen_expr E (Suc m) expr s2 = Some (Inr s2)
      \<and> node_ir (nodes s2 expr) = node_ir (nodes s1 expr))"
proof (intro conjI impI)
  assume "emitted (nodes t expr)"
  then show "codegen_expr E (Suc k) expr t = Some (Inr t)" by (rule codegen_expr_emitted)
next
  assume a: "codegen_expr E n expr s = Some (Inr s1) \<and> later E s1 s2"
  then have e1: "emitted (nodes s1 expr)" using codegen_expr_marks by blast
  have p: "preserves None s1 s2" using a later_preserves by blast
  show "emitted (nodes s1 expr)" by (rule e1)
  have "emitted (nodes s2 expr)" using p e1 by (simp add: preserves_def)
  then show "codegen_expr E (Suc m) expr s2 = Some (Inr s2)" by (rule codegen_expr_emitted)
  show "node_ir (nodes s2 expr) = node_ir (nodes s1 expr)" using p e1 by (simp add: preserves_def)
qed

theorem codegen_expr_idempotent_witness:
  "emitted (nodes shared_operand_emitted 1)
   \<and> codegen_expr counting_builder 2 1 shared_operand = Some (Inr shared_operand_emitted)
   \<and> later counting_builder shared_operand_emitted (shared_operand_emitted\<lparr>builder := 5\<rparr>)
   \<and> codegen_expr counting_builder (Suc 0) 1 (shared_operand_emitted\<lparr>builder := 5\<rparr>)
       = Some (Inr (shared_operand_emitted\<lparr>builder := 5\<rparr>))
   \<and> node_ir (nodes (shared_operand_emitted\<lparr>builder := 5\<rparr>) 1) = Some 1"
  using codegen_expr_idempotent [where t = shared_operand_emitted and expr = 1
      and E = counting_builder and k = 0 and n = 2 and s = shared_operand
      and ?s1.0 = shared_operand_emitted and ?s2.0 = "shared_operand_emitted\<lparr>builder := 5\<rparr>"
      and m = 0]
    shared_operand_run later.builder [OF later.now, of counting_builder shared_operand_emitted 5]
  by (simp add: numeral_2_eq_2 shared_operand_emitted_def)

end
